theory Spec2Isabelle
  imports Main "HOL-Library.Sublist"
begin

section \<open>Errors\<close>

text \<open>
  The exceptions that the modelled code can meet.  The two lookup exceptions of the
  object-relational mapper carry the name of the model class that raised them.
\<close>

datatype error =
    InvalidOperation
  | AttributeError
  | NameError
  | TypeError
  | IndexError
  | DoesNotExist string
  | MultipleObjectsReturned string
  | ValueError
  | DatabaseError
  | OGRException
  | GEOSException

section \<open>Decimal numbers of the Characteristic Quantizer\<close>

text \<open>
  \<^verbatim>\<open>setup.py\<close> line 720 computes
  \<^verbatim>\<open>Decimal(str(feat.get(attr))).quantize(Decimal('000000.0000', 'ROUND_DOWN'))\<close>.
  The class \<^verbatim>\<open>Decimal\<close> belongs to the Python 2 standard library; it is modelled
  here from the behaviour of \<^verbatim>\<open>decimal.py\<close>: a number is a sign, a coefficient and
  an exponent, or an infinity, or a not-a-number.
\<close>

datatype decimal =
    Finite bool nat int
  | Infinity bool
  | NaN bool bool nat

definition is_space :: "char \<Rightarrow> bool" where
  "is_space c \<longleftrightarrow> (of_char c :: nat) \<in> {9, 10, 11, 12, 13, 32}"

definition strip :: "string \<Rightarrow> string" where
  "strip s = rev (dropWhile is_space (rev (dropWhile is_space s)))"

definition is_digit :: "char \<Rightarrow> bool" where
  "is_digit c \<longleftrightarrow> 48 \<le> (of_char c :: nat) \<and> (of_char c :: nat) \<le> 57"

definition digits_val :: "string \<Rightarrow> nat" where
  "digits_val s = foldl (\<lambda>a c. 10 * a + ((of_char c :: nat) - 48)) 0 s"

definition lower :: "char \<Rightarrow> char" where
  "lower c = (if 65 \<le> (of_char c :: nat) \<and> (of_char c :: nat) \<le> 90
              then char_of ((of_char c :: nat) + 32) else c)"

text \<open>The optional sign in front of a numeric string: the sign bit and the rest.\<close>

fun split_sign :: "string \<Rightarrow> bool \<times> string" where
  "split_sign [] = (False, [])"
| "split_sign (c # cs) =
     (if c = CHR ''-'' then (True, cs)
      else if c = CHR ''+'' then (False, cs)
      else (False, c # cs))"

text \<open>
  The exponent part of a finite literal: empty, or \<^verbatim>\<open>E\<close>, an optional sign and at
  least one digit, up to the end of the string.
\<close>

definition parse_exp :: "string \<Rightarrow> int option" where
  "parse_exp r =
     (case r of
        [] \<Rightarrow> Some 0
      | e # t \<Rightarrow>
          if lower e = CHR ''e'' then
            (let (neg, ds) = split_sign t in
             if ds \<noteq> [] \<and> list_all is_digit ds
             then Some (if neg then - int (digits_val ds) else int (digits_val ds))
             else None)
          else None)"

text \<open>
  A finite literal: digits, an optional point with digits, an optional exponent, and at
  least one digit before the exponent.  The coefficient is the integer and fraction digits
  read as one number; the exponent is lowered by the number of fraction digits.
\<close>

definition parse_finite :: "bool \<Rightarrow> string \<Rightarrow> decimal option" where
  "parse_finite sg s =
     (let ip = takeWhile is_digit s;
          r1 = dropWhile is_digit s;
          fp = (case r1 of [] \<Rightarrow> [] | c # t \<Rightarrow> if c = CHR ''.'' then takeWhile is_digit t else []);
          r2 = (case r1 of [] \<Rightarrow> [] | c # t \<Rightarrow> if c = CHR ''.'' then dropWhile is_digit t else r1)
      in if ip = [] \<and> fp = [] then None
         else (case parse_exp r2 of
                 None \<Rightarrow> None
               | Some ex \<Rightarrow> Some (Finite sg (digits_val (ip @ fp)) (ex - int (length fp)))))"

definition parse_special :: "bool \<Rightarrow> string \<Rightarrow> decimal option" where
  "parse_special sg s =
     (let l = map lower s in
      if l = ''inf'' \<or> l = ''infinity'' then Some (Infinity sg)
      else if take 3 l = ''nan'' \<and> list_all is_digit (drop 3 l)
        then Some (NaN sg False (digits_val (drop 3 l)))
      else if take 4 l = ''snan'' \<and> list_all is_digit (drop 4 l)
        then Some (NaN sg True (digits_val (drop 4 l)))
      else None)"

definition parse_decimal :: "string \<Rightarrow> decimal option" where
  "parse_decimal v =
     (let (sg, r) = split_sign (strip v) in
      case parse_finite sg r of
        Some d \<Rightarrow> Some d
      | None \<Rightarrow> parse_special sg r)"

text \<open>
  The constructor \<^verbatim>\<open>Decimal(value, context)\<close> of Python 2.  Its second parameter is
  a context, and it is looked at only when the literal does not parse: with no context the
  thread's context raises \<^verbatim>\<open>InvalidOperation\<close>, and an object that is no context (a
  string, say) has no method to raise with.
\<close>

definition Decimal :: "string \<Rightarrow> string option \<Rightarrow> error + decimal" where
  "Decimal v context =
     (case parse_decimal v of
        Some d \<Rightarrow> Inr d
      | None \<Rightarrow> (case context of None \<Rightarrow> Inl InvalidOperation | Some c \<Rightarrow> Inl AttributeError))"

text \<open>The default context of the library: 28 digits, rounding half to even.\<close>

definition prec :: nat where "prec = 28"
definition Emax :: int where "Emax = 999999999"
definition Emin :: int where "Emin = - 999999999"
definition Etiny :: int where "Etiny = Emin - int prec + 1"

fun ndigits :: "nat \<Rightarrow> nat" where
  "ndigits n = (if n < 10 then 1 else Suc (ndigits (n div 10)))"

declare ndigits.simps [simp del]

definition adjusted :: "nat \<Rightarrow> int \<Rightarrow> int" where
  "adjusted c e = e + int (ndigits c) - 1"

text \<open>
  Rounding a coefficient that loses its last \<open>d\<close> digits, half to even
  (\<^verbatim>\<open>ROUND_HALF_EVEN\<close>, the rounding of the default context): up when the lost part is
  more than half a unit, or exactly half next to an odd digit.
\<close>

definition round_half_even :: "nat \<Rightarrow> nat \<Rightarrow> nat" where
  "round_half_even c d =
     (let q = c div 10 ^ d; r = c mod 10 ^ d in
      if 2 * r > 10 ^ d \<or> (2 * r = 10 ^ d \<and> odd q) then q + 1 else q)"

definition rescale :: "nat \<Rightarrow> int \<Rightarrow> int \<Rightarrow> nat" where
  "rescale c e ex =
     (if c = 0 then 0
      else if e \<ge> ex then c * 10 ^ nat (e - ex)
      else round_half_even c (nat (ex - e)))"

text \<open>
  \<^verbatim>\<open>self.quantize(exp)\<close> with no rounding and no context given: both come from the
  default context.  A signalling not-a-number raises, a quiet one is the result (with a
  diagnostic cut to the precision), an infinity meets only an infinity, and a finite
  result has to fit the precision.
\<close>

fun quantize :: "decimal \<Rightarrow> decimal \<Rightarrow> error + decimal" where
  "quantize (NaN s sig p) (NaN s' sig' p') =
     (if sig \<or> sig' then Inl InvalidOperation else Inr (NaN s False (p mod 10 ^ prec)))"
| "quantize (NaN s sig p) _ =
     (if sig then Inl InvalidOperation else Inr (NaN s False (p mod 10 ^ prec)))"
| "quantize _ (NaN s sig p) =
     (if sig then Inl InvalidOperation else Inr (NaN s False (p mod 10 ^ prec)))"
| "quantize (Infinity s) (Infinity _) = Inr (Infinity s)"
| "quantize (Infinity s) (Finite _ _ _) = Inl InvalidOperation"
| "quantize (Finite _ _ _) (Infinity _) = Inl InvalidOperation"
| "quantize (Finite s c e) (Finite _ _ ex) =
     (if \<not> (Etiny \<le> ex \<and> ex \<le> Emax) then Inl InvalidOperation
      else if c = 0 then Inr (Finite s 0 ex)
      else if adjusted c e > Emax then Inl InvalidOperation
      else if adjusted c e - ex + 1 > int prec then Inl InvalidOperation
      else let a = rescale c e ex in
        if adjusted a ex > Emax then Inl InvalidOperation
        else if ndigits a > prec then Inl InvalidOperation
        else Inr (Finite s a ex))"

text \<open>
  Line 720 of \<^verbatim>\<open>setup.py\<close>, on the text \<^verbatim>\<open>str(feat.get(attr))\<close> of the attribute.
  The name \<^verbatim>\<open>'ROUND_DOWN'\<close> is handed to the constructor of the quantum, in the place
  of its context, and not to \<^verbatim>\<open>quantize\<close>.
\<close>

definition quantize_attr :: "string \<Rightarrow> error + decimal" where
  "quantize_attr v =
     (case Decimal v None of
        Inl e \<Rightarrow> Inl e
      | Inr d \<Rightarrow>
          (case Decimal ''000000.0000'' (Some ''ROUND_DOWN'') of
             Inl e \<Rightarrow> Inl e
           | Inr q \<Rightarrow> quantize d q))"


section \<open>Computations with a state and exceptions\<close>

text \<open>
  A Python statement sequence that reads and writes the database, and may raise, is a
  function from the state to a result and the state it leaves.  An exception (\<open>Inl\<close>)
  keeps the writes made before it: the management command runs outside of any
  transaction block.
\<close>

type_synonym ('a, 's) prog = "'s \<Rightarrow> (error + 'a) \<times> 's"

definition return :: "'a \<Rightarrow> ('a, 's) prog" where
  "return x = (\<lambda>s. (Inr x, s))"

definition lift :: "error + 'a \<Rightarrow> ('a, 's) prog" where
  "lift r = (\<lambda>s. (r, s))"

definition bind :: "('a, 's) prog \<Rightarrow> ('a \<Rightarrow> ('b, 's) prog) \<Rightarrow> ('b, 's) prog" where
  "bind m f = (\<lambda>s. case m s of (Inl e, s') \<Rightarrow> (Inl e, s') | (Inr x, s') \<Rightarrow> f x s')"

text \<open>A \<^verbatim>\<open>for\<close> loop over a list: the first exception leaves the loop.\<close>

fun for_each :: "('x \<Rightarrow> (unit, 's) prog) \<Rightarrow> 'x list \<Rightarrow> (unit, 's) prog" where
  "for_each f [] = return ()"
| "for_each f (x # xs) = bind (f x) (\<lambda>_. for_each f xs)"

section \<open>The configuration document\<close>

text \<open>
  The configuration is an XML document that has been validated against its schema
  (\<^verbatim>\<open>handle\<close>, line 99).  Each kind of element is a record of the attributes that the
  command reads; an attribute read with \<^verbatim>\<open>.get\<close> is optional, an identifier or a
  reference that is pasted into an XPath query is a string.  The lists keep document
  order.
\<close>

record body_config =
  bc_id :: string
  bc_name :: "string option"
  bc_member :: "string option"
  bc_maxdistricts :: "string option"

record subject_config =
  sc_id :: string
  sc_name :: "string option"
  sc_short_name :: "string option"
  sc_displayed :: "string option"
  sc_sortkey :: "string option"
  sc_aliasfor :: "string option"
  sc_field :: "string option"

record target_config =
  tc_id :: string
  tc_subjectref :: string
  tc_value :: "string option"
  tc_range1 :: "string option"
  tc_range2 :: "string option"

record ltarget_ref =
  ltr_ref :: string
  ltr_default :: "string option"

text \<open>
  A \<^verbatim>\<open>LegislativeBody\<close> element inside a \<^verbatim>\<open>GeoLevel\<close>: its reference, the
  references of its \<^verbatim>\<open>Parent\<close> children and its \<^verbatim>\<open>LegislativeTarget\<close> entries.
\<close>

record lbody_ref =
  lbr_ref :: string
  lbr_parent :: "string list"
  lbr_targets :: "ltarget_ref list"

record geolevel_config =
  gc_id :: string
  gc_name :: "string option"
  gc_min_zoom :: "string option"
  gc_sort_key :: "string option"
  gc_shapefile :: "string option"
  gc_namefield :: "string option"
  gc_supplementfield :: "string option"
  gc_lbodies :: "lbody_ref list"

record mapserver_config =
  ms_hostname :: "string option"
  ms_ns :: "string option"
  ms_nshref :: "string option"
  ms_adminuser :: "string option"
  ms_adminpass :: "string option"
  ms_styles :: "string option"

record database_config =
  dc_name :: "string option"
  dc_user :: "string option"
  dc_password :: "string option"

record config =
  cf_bodies :: "body_config list"
  cf_subjects :: "subject_config list"
  cf_targets :: "target_config list"
  cf_geolevels :: "geolevel_config list"
  cf_mapserver :: "mapserver_config list"
  cf_database :: "database_config list"

text \<open>\<^verbatim>\<open>config.xpath(...)[0]\<close>: the first element found, or \<^verbatim>\<open>IndexError\<close>.\<close>

definition xpath_first :: "'a list \<Rightarrow> error + 'a" where
  "xpath_first xs = (case xs of [] \<Rightarrow> Inl IndexError | x # _ \<Rightarrow> Inr x)"

definition Subject_by_id :: "config \<Rightarrow> string \<Rightarrow> subject_config list" where
  "Subject_by_id config i = filter (\<lambda>s. sc_id s = i) (cf_subjects config)"

definition Target_by_id :: "config \<Rightarrow> string \<Rightarrow> target_config list" where
  "Target_by_id config i = filter (\<lambda>t. tc_id t = i) (cf_targets config)"

definition LegislativeBody_by_id :: "config \<Rightarrow> string \<Rightarrow> body_config list" where
  "LegislativeBody_by_id config i = filter (\<lambda>b. bc_id b = i) (cf_bodies config)"

definition GeoLevel_by_id :: "config \<Rightarrow> string \<Rightarrow> geolevel_config list" where
  "GeoLevel_by_id config i = filter (\<lambda>g. gc_id g = i) (cf_geolevels config)"

section \<open>The database\<close>

text \<open>
  One record per model class, with the fields that the command sets.  A table is the list
  of its rows in the order of their creation, and the primary key of a row is its position:
  the command never deletes a row.  The model classes themselves
  (\<^verbatim>\<open>redistricting.models\<close>) are not among the sources; the rows hold the values as the
  command passes them.
\<close>

record legislative_body =
  lb_name :: "string option"
  lb_member :: "string option"
  lb_max_districts :: "string option"

record subject =
  sj_name :: string
  sj_display :: "string option"
  sj_short_display :: "string option"
  sj_is_displayed :: bool
  sj_sort_key :: "string option"

record target =
  tg_subject :: nat
  tg_value :: "string option"
  tg_range1 :: "string option"
  tg_range2 :: "string option"

record geolevel =
  gl_name :: "string option"
  gl_min_zoom :: "string option"
  gl_sort_key :: "string option"

record legislative_default =
  ld_legislative_body :: nat
  ld_target :: "nat option"

record legislative_level =
  ll_legislative_body :: nat
  ll_geolevel :: nat
  ll_target :: nat
  ll_parent :: "nat option"

text \<open>
  A user: the name, and the text that the stored password was made from (\<open>None\<close> when no
  password has been set).
\<close>

record user =
  username :: string
  password :: "string option"


text \<open>
  The value of a field of a shapefile feature, as \<^verbatim>\<open>feat.get\<close> returns it: an integer,
  a real number (kept as the text that \<^verbatim>\<open>str\<close> makes of it) or a string.
\<close>

datatype field_value = OFTInteger int | OFTReal string | OFTString string

record 'g geounit =
  gu_geom :: 'g
  gu_name :: field_value
  gu_geolevel :: nat
  gu_simple :: 'g
  gu_center :: 'g
  gu_supplemental_id :: "field_value option"

record characteristic =
  ch_subject :: nat
  ch_number :: decimal
  ch_geounit :: nat

text \<open>What the command prints when it goes on after a failure.\<close>

datatype message =
    Failed_to_import_geometry int
  | Failed_to_set_value "string option" field_value

text \<open>
  The state: the tables, the failure messages printed so far, and the \<^verbatim>\<open>Subject\<close>
  elements that the running command has moved inside another \<^verbatim>\<open>Subject\<close> element
  of its configuration tree (child and parent, by identifier, in the order of the moves).
  Geometries are values of a type \<open>'g\<close> that the geometry library owns.
\<close>

record 'g state =
  legislative_bodies :: "legislative_body list"
  subjects :: "subject list"
  targets :: "target list"
  geolevels :: "geolevel list"
  legislative_defaults :: "legislative_default list"
  legislative_levels :: "legislative_level list"
  users :: "user list"
  geounits :: "'g geounit list"
  characteristics :: "characteristic list"
  printed :: "message list"
  nested :: "(string \<times> string) list"

subsection \<open>Queries of the object-relational mapper\<close>

text \<open>The primary keys of the rows that a filter selects, in the order of the table.\<close>

definition matching :: "('r \<Rightarrow> bool) \<Rightarrow> 'r list \<Rightarrow> nat list" where
  "matching P rows = filter (\<lambda>i. P (rows ! i)) [0..<length rows]"

text \<open>\<^verbatim>\<open>objects.get(...)\<close>: the one row that matches, or an exception.\<close>

definition objects_get :: "string \<Rightarrow> ('r \<Rightarrow> bool) \<Rightarrow> 'r list \<Rightarrow> error + nat" where
  "objects_get model P rows =
     (case matching P rows of
        [] \<Rightarrow> Inl (DoesNotExist model)
      | [i] \<Rightarrow> Inr i
      | i # j # _ \<Rightarrow> Inl (MultipleObjectsReturned model))"

text \<open>\<^verbatim>\<open>objects.filter(...)[0]\<close>: the first row that matches.\<close>

definition objects_filter_first :: "('r \<Rightarrow> bool) \<Rightarrow> 'r list \<Rightarrow> error + nat" where
  "objects_filter_first P rows =
     (case matching P rows of [] \<Rightarrow> Inl IndexError | i # _ \<Rightarrow> Inr i)"

text \<open>
  \<^verbatim>\<open>objects.get_or_create(...)\<close>: the row that \<^verbatim>\<open>get\<close> finds and \<open>False\<close>, or,
  when \<^verbatim>\<open>get\<close> finds none, a new row at the end of the table and \<open>True\<close>.  Another
  exception of \<^verbatim>\<open>get\<close> goes through.
\<close>

definition get_or_create ::
  "string \<Rightarrow> ('r \<Rightarrow> bool) \<Rightarrow> 'r \<Rightarrow> 'r list \<Rightarrow> (error + nat \<times> bool) \<times> 'r list" where
  "get_or_create model P r rows =
     (case objects_get model P rows of
        Inr i \<Rightarrow> (Inr (i, False), rows)
      | Inl (DoesNotExist m) \<Rightarrow> (Inr (length rows, True), rows @ [r])
      | Inl e \<Rightarrow> (Inl e, rows))"

definition LegislativeBody_get_or_create ::
  "legislative_body \<Rightarrow> (nat \<times> bool, 'g state) prog" where
  "LegislativeBody_get_or_create r s =
     (case get_or_create ''LegislativeBody'' (\<lambda>x. x = r) r (legislative_bodies s) of
        (res, rows) \<Rightarrow> (res, s\<lparr>legislative_bodies := rows\<rparr>))"

definition Subject_get_or_create :: "subject \<Rightarrow> (nat \<times> bool, 'g state) prog" where
  "Subject_get_or_create r s =
     (case get_or_create ''Subject'' (\<lambda>x. x = r) r (subjects s) of
        (res, rows) \<Rightarrow> (res, s\<lparr>subjects := rows\<rparr>))"

definition Target_get_or_create :: "target \<Rightarrow> (nat \<times> bool, 'g state) prog" where
  "Target_get_or_create r s =
     (case get_or_create ''Target'' (\<lambda>x. x = r) r (targets s) of
        (res, rows) \<Rightarrow> (res, s\<lparr>targets := rows\<rparr>))"

definition Geolevel_get_or_create :: "geolevel \<Rightarrow> (nat \<times> bool, 'g state) prog" where
  "Geolevel_get_or_create r s =
     (case get_or_create ''Geolevel'' (\<lambda>x. x = r) r (geolevels s) of
        (res, rows) \<Rightarrow> (res, s\<lparr>geolevels := rows\<rparr>))"

definition LegislativeLevel_get_or_create ::
  "legislative_level \<Rightarrow> (nat \<times> bool, 'g state) prog" where
  "LegislativeLevel_get_or_create r s =
     (case get_or_create ''LegislativeLevel'' (\<lambda>x. x = r) r (legislative_levels s) of
        (res, rows) \<Rightarrow> (res, s\<lparr>legislative_levels := rows\<rparr>))"

text \<open>
  \<^verbatim>\<open>LegislativeDefaults.objects.get_or_create(legislative_body=...)\<close> looks only at the
  body; a new row has no target yet.
\<close>

definition LegislativeDefaults_get_or_create :: "nat \<Rightarrow> (nat \<times> bool, 'g state) prog" where
  "LegislativeDefaults_get_or_create b s =
     (case get_or_create ''LegislativeDefaults'' (\<lambda>x. ld_legislative_body x = b)
             \<lparr>ld_legislative_body = b, ld_target = None\<rparr> (legislative_defaults s) of
        (res, rows) \<Rightarrow> (res, s\<lparr>legislative_defaults := rows\<rparr>))"

text \<open>\<^verbatim>\<open>obj.target = target; obj.save()\<close> on the row with primary key \<open>i\<close>.\<close>

definition LegislativeDefaults_set_target :: "nat \<Rightarrow> nat \<Rightarrow> (unit, 'g state) prog" where
  "LegislativeDefaults_set_target i t s =
     (Inr (), s\<lparr>legislative_defaults :=
                   (legislative_defaults s)[i := (legislative_defaults s ! i)\<lparr>ld_target := Some t\<rparr>]\<rparr>)"

definition User_get_or_create :: "string \<Rightarrow> (nat \<times> bool, 'g state) prog" where
  "User_get_or_create n s =
     (case get_or_create ''User'' (\<lambda>x. username x = n)
             \<lparr>username = n, password = None\<rparr> (users s) of
        (res, rows) \<Rightarrow> (res, s\<lparr>users := rows\<rparr>))"

text \<open>\<^verbatim>\<open>anon.set_password(p); anon.save()\<close> on the row with primary key \<open>i\<close>.\<close>

definition User_set_password :: "nat \<Rightarrow> string \<Rightarrow> (unit, 'g state) prog" where
  "User_set_password i p s =
     (Inr (), s\<lparr>users := (users s)[i := (users s ! i)\<lparr>password := Some p\<rparr>]\<rparr>)"

definition LegislativeBody_get :: "string option \<Rightarrow> (nat, 'g state) prog" where
  "LegislativeBody_get n s =
     (objects_get ''LegislativeBody'' (\<lambda>x. lb_name x = n) (legislative_bodies s), s)"

definition Subject_get :: "string \<Rightarrow> (nat, 'g state) prog" where
  "Subject_get n s = (objects_get ''Subject'' (\<lambda>x. sj_name x = n) (subjects s), s)"

definition Subject_filter_first :: "string \<Rightarrow> (nat, 'g state) prog" where
  "Subject_filter_first n s = (objects_filter_first (\<lambda>x. sj_name x = n) (subjects s), s)"

definition Target_get :: "target \<Rightarrow> (nat, 'g state) prog" where
  "Target_get r s = (objects_get ''Target'' (\<lambda>x. x = r) (targets s), s)"

definition Geolevel_get :: "string option \<Rightarrow> (nat, 'g state) prog" where
  "Geolevel_get n s = (objects_get ''Geolevel'' (\<lambda>x. gl_name x = n) (geolevels s), s)"

text \<open>
  \<^verbatim>\<open>LegislativeLevel.objects.get(legislative_body=..., geolevel=..., target=...)\<close>: the
  parent of the row is not part of the lookup.
\<close>

definition LegislativeLevel_get :: "nat \<Rightarrow> nat \<Rightarrow> nat \<Rightarrow> (nat, 'g state) prog" where
  "LegislativeLevel_get b g t s =
     (objects_get ''LegislativeLevel''
        (\<lambda>x. ll_legislative_body x = b \<and> ll_geolevel x = g \<and> ll_target x = t)
        (legislative_levels s), s)"

section \<open>Hierarchy reconciliation: \<^verbatim>\<open>import_prereq\<close>\<close>

text \<open>Lines 487 to 497: one \<^verbatim>\<open>LegislativeBody\<close> row for each configured body.\<close>

definition import_body :: "body_config \<Rightarrow> (unit, 'g state) prog" where
  "import_body body =
     bind (LegislativeBody_get_or_create
             \<lparr>lb_name = bc_name body, lb_member = bc_member body,
              lb_max_districts = bc_maxdistricts body\<rparr>)
          (\<lambda>_. return ())"

text \<open>Lines 501 to 516: one \<^verbatim>\<open>Subject\<close> row for each subject that is no alias.\<close>

definition import_subject :: "subject_config \<Rightarrow> (unit, 'g state) prog" where
  "import_subject subj =
     (if sc_aliasfor subj \<noteq> None then return ()
      else bind (Subject_get_or_create
                   \<lparr>sj_name = sc_id subj, sj_display = sc_name subj,
                    sj_short_display = sc_short_name subj,
                    sj_is_displayed = (sc_displayed subj = Some ''true''),
                    sj_sort_key = sc_sortkey subj\<rparr>)
                (\<lambda>_. return ()))"

text \<open>
  Lines 519 to 539: one \<^verbatim>\<open>Target\<close> row for each configured target, on the subject that
  its reference names, or on the subject that this one is an alias for.
\<close>

definition import_target :: "config \<Rightarrow> target_config \<Rightarrow> (unit, 'g state) prog" where
  "import_target config targ =
     bind (lift (xpath_first (Subject_by_id config (tc_subjectref targ)))) (\<lambda>subconfig.
     bind (case sc_aliasfor subconfig of
             None \<Rightarrow> return subconfig
           | Some a \<Rightarrow> lift (xpath_first (Subject_by_id config a))) (\<lambda>subconfig.
     bind (Subject_filter_first (sc_id subconfig)) (\<lambda>subject.
     bind (Target_get_or_create
             \<lparr>tg_subject = subject, tg_value = tc_value targ,
              tg_range1 = tc_range1 targ, tg_range2 = tc_range2 targ\<rparr>)
          (\<lambda>_. return ()))))"

text \<open>
  Lines 563 to 609, the body of the innermost loop: one \<^verbatim>\<open>LegislativeTarget\<close> entry
  \<open>targ\<close> of the body element \<open>lbody\<close> inside the geolevel with row \<open>glvl\<close>.
\<close>

definition import_legislative_target ::
  "config \<Rightarrow> nat \<Rightarrow> lbody_ref \<Rightarrow> nat \<Rightarrow> ltarget_ref \<Rightarrow> (unit, 'g state) prog" where
  "import_legislative_target config glvl lbody legislative_body targ =
     bind (lift (xpath_first (Target_by_id config (ltr_ref targ)))) (\<lambda>tconfig.
     bind (lift (xpath_first (Subject_by_id config (tc_subjectref tconfig)))) (\<lambda>sconfig.
     bind (case sc_aliasfor sconfig of
             None \<Rightarrow> return sconfig
           | Some a \<Rightarrow> lift (xpath_first (Subject_by_id config a))) (\<lambda>sconfig.
     bind (Subject_get (sc_id sconfig)) (\<lambda>subject.
     bind (Target_get
             \<lparr>tg_subject = subject, tg_value = tc_value tconfig,
              tg_range1 = tc_range1 tconfig, tg_range2 = tc_range2 tconfig\<rparr>) (\<lambda>target.
     bind (if ltr_default targ \<noteq> None
           then bind (LegislativeDefaults_get_or_create legislative_body) (\<lambda>(obj, created).
                  LegislativeDefaults_set_target obj target)
           else return ()) (\<lambda>_.
     bind (case lbr_parent lbody of
             [] \<Rightarrow> return None
           | pref # _ \<Rightarrow>
               bind (lift (xpath_first (GeoLevel_by_id config pref))) (\<lambda>pconfig.
               bind (Geolevel_get (gc_name pconfig)) (\<lambda>plvl.
               bind (LegislativeLevel_get legislative_body plvl target) (\<lambda>parent.
               return (Some parent))))) (\<lambda>parent.
     bind (LegislativeLevel_get_or_create
             \<lparr>ll_legislative_body = legislative_body, ll_geolevel = glvl,
              ll_target = target, ll_parent = parent\<rparr>)
          (\<lambda>_. return ()))))))))"

text \<open>Lines 556 to 609: one body element inside a geolevel.\<close>

definition import_legislative_body_ref ::
  "config \<Rightarrow> nat \<Rightarrow> lbody_ref \<Rightarrow> (unit, 'g state) prog" where
  "import_legislative_body_ref config glvl lbody =
     bind (lift (xpath_first (LegislativeBody_by_id config (lbr_ref lbody)))) (\<lambda>lbconfig.
     bind (LegislativeBody_get (bc_name lbconfig)) (\<lambda>legislative_body.
     for_each (import_legislative_target config glvl lbody legislative_body)
       (lbr_targets lbody)))"

text \<open>Lines 545 to 609: one geolevel of the configuration, in document order.\<close>

definition import_geolevel_prereq :: "config \<Rightarrow> geolevel_config \<Rightarrow> (unit, 'g state) prog" where
  "import_geolevel_prereq config geolevel =
     bind (Geolevel_get_or_create
             \<lparr>gl_name = gc_name geolevel, gl_min_zoom = gc_min_zoom geolevel,
              gl_sort_key = gc_sort_key geolevel\<rparr>) (\<lambda>(glvl, created).
     for_each (import_legislative_body_ref config glvl) (gc_lbodies geolevel))"

text \<open>Lines 611 to 615: the user \<^verbatim>\<open>anonymous\<close>.\<close>

definition create_anonymous :: "(unit, 'g state) prog" where
  "create_anonymous =
     bind (User_get_or_create ''anonymous'') (\<lambda>(anon, created).
       if \<not> created then User_set_password anon ''anonymous'' else return ())"

definition import_prereq :: "config \<Rightarrow> (bool, 'g state) prog" where
  "import_prereq config =
     bind (for_each import_body (cf_bodies config)) (\<lambda>_.
     bind (for_each import_subject (cf_subjects config)) (\<lambda>_.
     bind (for_each (import_target config) (cf_targets config)) (\<lambda>_.
     bind (for_each (import_geolevel_prereq config) (cf_geolevels config)) (\<lambda>_.
     bind create_anonymous (\<lambda>_.
     return True)))))"

section \<open>The geometry library and the shapefile\<close>

text \<open>
  The operations of the geometry library (GEOS, through \<^verbatim>\<open>django.contrib.gis.geos\<close>)
  that \<^verbatim>\<open>import_shape\<close> calls.  The library is not part of the sources and works on
  floating-point coordinates, so it is a parameter of the model: geometries have a type
  \<open>'g\<close>, coordinates a type \<open>'c\<close>, and each operation may raise.
  \<open>simplify\<close> is the simplification at \<^verbatim>\<open>settings.SIMPLE_TOLERANCE\<close> that keeps
  the topology; \<open>first\<close> is the indexing \<^verbatim>\<open>[0]\<close> of a collection.
\<close>

record ('g, 'c) geos =
  geom_type :: "'g \<Rightarrow> string"
  MultiPolygon :: "'g \<Rightarrow> error + 'g"
  simplify :: "'g \<Rightarrow> error + 'g"
  centroid :: "'g \<Rightarrow> error + 'g"
  within :: "'g \<Rightarrow> 'g \<Rightarrow> error + bool"
  first :: "'g \<Rightarrow> error + 'g"
  extent :: "'g \<Rightarrow> error + 'c \<times> 'c \<times> 'c \<times> 'c"
  point_y :: "'g \<Rightarrow> error + 'c"
  LineString :: "'c \<times> 'c \<Rightarrow> 'c \<times> 'c \<Rightarrow> error + 'g"
  intersection :: "'g \<Rightarrow> 'g \<Rightarrow> error + 'g"

text \<open>
  A feature of a layer: its identifier, the geometry that \<^verbatim>\<open>feat.geom.geos\<close> gives
  (or the exception it raises), and \<^verbatim>\<open>feat.get\<close> on a field name.
\<close>

record 'g feature =
  feat_fid :: int
  feat_geom :: "error + 'g"
  feat_get :: "string option \<Rightarrow> error + field_value"

text \<open>
  What the persistence layer refuses.  The model classes are not among the sources, so
  the column types and constraints of \<^verbatim>\<open>Geounit\<close> and \<^verbatim>\<open>Characteristic\<close> are a
  parameter: a row that is not accepted makes \<^verbatim>\<open>save\<close> raise.
\<close>

record 'g rules =
  accepts_geounit :: "'g geounit \<Rightarrow> bool"
  accepts_characteristic :: "characteristic \<Rightarrow> bool"

text \<open>A local variable of a Python function: not yet assigned, \<^verbatim>\<open>None\<close>, or a value.\<close>

datatype 'a pyvar = Unbound | PyNone | Bound 'a

text \<open>Sequencing of computations that only may raise.\<close>

definition and_then :: "error + 'a \<Rightarrow> ('a \<Rightarrow> error + 'b) \<Rightarrow> error + 'b" where
  "and_then r f = (case r of Inl e \<Rightarrow> Inl e | Inr x \<Rightarrow> f x)"

text \<open>\<^verbatim>\<open>str\<close> of an integer.\<close>

fun digits_of :: "nat \<Rightarrow> string" where
  "digits_of n =
     (if n < 10 then [char_of (48 + n)]
      else digits_of (n div 10) @ [char_of (48 + n mod 10)])"

declare digits_of.simps [simp del]

definition str_int :: "int \<Rightarrow> string" where
  "str_int i = (if i < 0 then CHR ''-'' # digits_of (nat (- i)) else digits_of (nat i))"

text \<open>\<^verbatim>\<open>str(feat.get(attr))\<close>.\<close>

fun str_field :: "field_value \<Rightarrow> string" where
  "str_field (OFTInteger i) = str_int i"
| "str_field (OFTReal s) = s"
| "str_field (OFTString s) = s"

text \<open>
  \<^verbatim>\<open>'%d' % feat.get(attr)\<close>: an integer and a finite real number format, a real number
  that is not finite and a string do not.
\<close>

fun format_d :: "field_value \<Rightarrow> error + unit" where
  "format_d (OFTInteger i) = Inr ()"
| "format_d (OFTReal s) =
     (case parse_decimal s of Some (Finite _ _ _) \<Rightarrow> Inr () | _ \<Rightarrow> Inl ValueError)"
| "format_d (OFTString s) = Inl TypeError"

section \<open>Geounit import: \<^verbatim>\<open>import_geolevel\<close> and \<^verbatim>\<open>import_shape\<close>\<close>

text \<open>The dictionary that \<^verbatim>\<open>import_geolevel\<close> hands to \<^verbatim>\<open>import_shape\<close>.\<close>

record gconfig =
  shapepath :: "string option"
  geolevel_name :: "string option"
  name_field :: "string option"
  supplemental_id_field :: "string option"
  subject_fields :: "subject_config list"

text \<open>
  \<^verbatim>\<open>sconfig.append(salconfig)\<close> of the XML library: an element has one parent, so
  appending an element that sits elsewhere in the tree moves it.  Elements are named by
  their identifiers, which are unique in a validated document.  An element cannot be put
  inside itself or inside one of its descendants.
\<close>

fun ancestor_or_same :: "(string \<times> string) list \<Rightarrow> nat \<Rightarrow> string \<Rightarrow> string \<Rightarrow> bool" where
  "ancestor_or_same nest 0 c x = (x = c)"
| "ancestor_or_same nest (Suc n) c x =
     (x = c \<or> (case map_of nest x of None \<Rightarrow> False | Some p \<Rightarrow> ancestor_or_same nest n c p))"

definition append_element :: "string \<Rightarrow> string \<Rightarrow> (unit, 'g state) prog" where
  "append_element parent child s =
     (if ancestor_or_same (nested s) (length (nested s)) child parent then (Inl ValueError, s)
      else (Inr (), s\<lparr>nested := filter (\<lambda>(c, p). c \<noteq> child) (nested s) @ [(child, parent)]\<rparr>))"

text \<open>\<^verbatim>\<open>sconfig.getchildren()\<close>, as far as the children are \<^verbatim>\<open>Subject\<close> elements.\<close>

definition getchildren :: "subject_config \<Rightarrow> (string list, 'g state) prog" where
  "getchildren sconfig s = (Inr (map fst (filter (\<lambda>(c, p). p = sc_id sconfig) (nested s))), s)"

text \<open>
  Lines 465 to 473: the subject elements of the targets that the geolevel refers to.  The
  element that an alias stands for is appended to the alias element.
\<close>

fun collect_subject_fields ::
  "config \<Rightarrow> ltarget_ref list \<Rightarrow> subject_config list \<Rightarrow> (subject_config list, 'g state) prog" where
  "collect_subject_fields config [] acc = return acc"
| "collect_subject_fields config (tref # trefs) acc =
     bind (lift (xpath_first (Target_by_id config (ltr_ref tref)))) (\<lambda>tconfig.
     bind (lift (xpath_first (Subject_by_id config (tc_subjectref tconfig)))) (\<lambda>sconfig.
     bind (case sc_aliasfor sconfig of
             None \<Rightarrow> return ()
           | Some a \<Rightarrow>
               bind (lift (xpath_first (Subject_by_id config a))) (\<lambda>salconfig.
               append_element (sc_id sconfig) (sc_id salconfig))) (\<lambda>_.
     collect_subject_fields config trefs (acc @ [sconfig]))))"

text \<open>
  An assignment \<^verbatim>\<open>d[k] = v\<close> to a dictionary.  The order in which Python 2 goes through
  a dictionary is not fixed by the language; here it is the order of the first
  assignments.
\<close>

fun dict_set :: "'k \<Rightarrow> 'v \<Rightarrow> ('k \<times> 'v) list \<Rightarrow> ('k \<times> 'v) list" where
  "dict_set k v [] = [(k, v)]"
| "dict_set k v ((k', v') # kvs) =
     (if k' = k then (k, v) # kvs else (k', v') # dict_set k v kvs)"

text \<open>
  Lines 643 to 649: the subject row of one subject element.  Each child element that is a
  \<^verbatim>\<open>Subject\<close> is looked up, and the last one stays; with no such child the element's
  own identifier is looked up.
\<close>

fun lookup_children :: "string list \<Rightarrow> nat option \<Rightarrow> (nat option, 'g state) prog" where
  "lookup_children [] sub = return sub"
| "lookup_children (elem # elems) sub =
     bind (Subject_get elem) (\<lambda>found. lookup_children elems (Some found))"

definition subject_of :: "subject_config \<Rightarrow> (nat, 'g state) prog" where
  "subject_of sconfig =
     bind (getchildren sconfig) (\<lambda>children.
     bind (lookup_children children None) (\<lambda>sub.
     case sub of
       Some found \<Rightarrow> return found
     | None \<Rightarrow> Subject_get (sc_id sconfig)))"

text \<open>Lines 639 to 650: the dictionary from field names to subject rows.\<close>

fun subject_objects_of ::
  "subject_config list \<Rightarrow> (string option \<times> nat) list \<Rightarrow>
   ((string option \<times> nat) list, 'g state) prog" where
  "subject_objects_of [] subject_objects = return subject_objects"
| "subject_objects_of (sconfig # sconfigs) subject_objects =
     bind (subject_of sconfig) (\<lambda>sub.
     subject_objects_of sconfigs (dict_set (sc_field sconfig) sub subject_objects))"

text \<open>
  Lines 679 to 695: the centroid of a geometry whose own centroid lies outside of it,
  taken on a horizontal line through the first polygon.
\<close>

definition repair_centroid :: "('g, 'c) geos \<Rightarrow> 'g \<Rightarrow> error + 'g" where
  "repair_centroid lib my_geom =
     and_then (first lib my_geom) (\<lambda>first_poly.
     and_then (extent lib first_poly) (\<lambda>(min_x, min_y, max_x, max_y).
     and_then (centroid lib first_poly) (\<lambda>c.
     and_then (point_y lib c) (\<lambda>my_y.
     and_then (LineString lib (min_x, my_y) (max_x, my_y)) (\<lambda>centerline.
     and_then (intersection lib centerline first_poly) (\<lambda>inter.
     and_then (if geom_type lib inter = ''MultiLineString'' then first lib inter else Inr inter)
       (\<lambda>inter.
     centroid lib inter)))))))"

text \<open>
  Lines 667 to 670: the geometry becomes the value of \<^verbatim>\<open>my_geom\<close> when it is a
  multipolygon or a polygon.  Any other kind of geometry leaves the variable as it was.
\<close>

definition coerce :: "('g, 'c) geos \<Rightarrow> 'g \<Rightarrow> 'g pyvar \<Rightarrow> error + 'g pyvar" where
  "coerce lib g my_geom =
     (if geom_type lib g = ''MultiPolygon'' then Inr (Bound g)
      else if geom_type lib g = ''Polygon''
        then and_then (MultiPolygon lib g) (\<lambda>m. Inr (Bound m))
      else Inr my_geom)"

text \<open>\<^verbatim>\<open>if supplemental_id_field:\<close> holds for a string that is not empty.\<close>

definition truthy :: "string option \<Rightarrow> bool" where
  "truthy v = (case v of None \<Rightarrow> False | Some s \<Rightarrow> s \<noteq> [])"

text \<open>
  Lines 671 to 709, with \<^verbatim>\<open>my_geom\<close> as the loop has left it: the simplified geometry,
  the centre, and the \<^verbatim>\<open>Geounit\<close> object before it is saved.  An unassigned variable
  and \<^verbatim>\<open>None\<close> both raise at \<^verbatim>\<open>my_geom.simplify\<close>.
\<close>

definition build_geounit ::
  "('g, 'c) geos \<Rightarrow> gconfig \<Rightarrow> nat \<Rightarrow> 'g feature \<Rightarrow> 'g pyvar \<Rightarrow> error + 'g geounit" where
  "build_geounit lib config level feat my_geom =
     (case my_geom of
        Unbound \<Rightarrow> Inl NameError
      | PyNone \<Rightarrow> Inl AttributeError
      | Bound m \<Rightarrow>
          and_then (simplify lib m) (\<lambda>simple.
          and_then (if geom_type lib simple \<noteq> ''MultiPolygon''
                    then MultiPolygon lib simple else Inr simple) (\<lambda>simple.
          and_then (centroid lib m) (\<lambda>center.
          and_then (within lib center m) (\<lambda>inside.
          and_then (if \<not> inside then repair_centroid lib m else Inr center) (\<lambda>center.
          and_then (feat_get feat (name_field config)) (\<lambda>name.
          and_then (if truthy (supplemental_id_field config)
                    then and_then (feat_get feat (supplemental_id_field config))
                           (\<lambda>v. Inr (Some v))
                    else Inr None) (\<lambda>supplemental_id.
          Inr \<lparr>gu_geom = m, gu_name = name, gu_geolevel = level, gu_simple = simple,
               gu_center = center, gu_supplemental_id = supplemental_id\<rparr>))))))))"

text \<open>
  Lines 665 to 709: the \<^verbatim>\<open>try\<close> block up to \<^verbatim>\<open>g.save()\<close>.  The result is the object
  to save, or the exception, and the value of \<^verbatim>\<open>my_geom\<close> afterwards.
\<close>

definition import_geometry ::
  "('g, 'c) geos \<Rightarrow> gconfig \<Rightarrow> nat \<Rightarrow> 'g feature \<Rightarrow> 'g pyvar \<Rightarrow>
   (error + 'g geounit) \<times> 'g pyvar" where
  "import_geometry lib config level feat my_geom =
     (case feat_geom feat of
        Inl e \<Rightarrow> (Inl e, my_geom)
      | Inr g \<Rightarrow>
          (case coerce lib g my_geom of
             Inl e \<Rightarrow> (Inl e, my_geom)
           | Inr my_geom' \<Rightarrow> (build_geounit lib config level feat my_geom', my_geom')))"

text \<open>\<^verbatim>\<open>c.save()\<close> of a new \<^verbatim>\<open>Characteristic\<close>.\<close>

definition Characteristic_save :: "'g rules \<Rightarrow> characteristic \<Rightarrow> (unit, 'g state) prog" where
  "Characteristic_save rules c s =
     (if accepts_characteristic rules c
      then (Inr (), s\<lparr>characteristics := characteristics s @ [c]\<rparr>)
      else (Inl DatabaseError, s))"

text \<open>\<^verbatim>\<open>g.save()\<close> of a new \<^verbatim>\<open>Geounit\<close>: the primary key of the row.\<close>

definition Geounit_save :: "'g rules \<Rightarrow> 'g geounit \<Rightarrow> (nat, 'g state) prog" where
  "Geounit_save rules g s =
     (if accepts_geounit rules g
      then (Inr (length (geounits s)), s\<lparr>geounits := geounits s @ [g]\<rparr>)
      else (Inl DatabaseError, s))"

definition print_message :: "message \<Rightarrow> (unit, 'g state) prog" where
  "print_message m s = (Inr (), s\<lparr>printed := printed s @ [m]\<rparr>)"

text \<open>
  Lines 720 to 731, the body of the loop over the dictionary: the value is parsed and
  quantized before the \<^verbatim>\<open>try\<close> block, which holds only the creation of the row.
\<close>

definition import_characteristic ::
  "'g rules \<Rightarrow> gconfig \<Rightarrow> 'g feature \<Rightarrow> nat \<Rightarrow> string option \<times> nat \<Rightarrow> (unit, 'g state) prog" where
  "import_characteristic rules config feat g = (\<lambda>(attr, obj).
     bind (lift (feat_get feat attr)) (\<lambda>raw.
     bind (lift (quantize_attr (str_field raw))) (\<lambda>val.
     (\<lambda>s. case Characteristic_save rules
                 \<lparr>ch_subject = obj, ch_number = val, ch_geounit = g\<rparr> s of
             (Inr u, s') \<Rightarrow> (Inr u, s')
           | (Inl e, s') \<Rightarrow>
               bind (lift (Decimal ''0.0'' None)) (\<lambda>zero.
               bind (Characteristic_save rules
                       \<lparr>ch_subject = obj, ch_number = zero, ch_geounit = g\<rparr>) (\<lambda>_.
               bind (lift (feat_get feat attr)) (\<lambda>raw.
               bind (lift (format_d raw)) (\<lambda>_.
               bind (lift (feat_get feat (name_field config))) (\<lambda>name.
               print_message (Failed_to_set_value attr name)))))) s'))))"

text \<open>
  Lines 656 to 732: the loop over the features of the layer.  \<^verbatim>\<open>my_geom\<close> is the one
  local variable that a turn of the loop may read before it assigns it.
\<close>

fun import_features ::
  "('g, 'c) geos \<Rightarrow> 'g rules \<Rightarrow> gconfig \<Rightarrow> nat \<Rightarrow> (string option \<times> nat) list \<Rightarrow>
   'g feature list \<Rightarrow> 'g pyvar \<Rightarrow> (unit, 'g state) prog" where
  "import_features lib rules config level subject_objects [] my_geom = return ()"
| "import_features lib rules config level subject_objects (feat # feats) my_geom =
     (case import_geometry lib config level feat my_geom of
        (Inl e, my_geom') \<Rightarrow>
          bind (print_message (Failed_to_import_geometry (feat_fid feat))) (\<lambda>_.
          import_features lib rules config level subject_objects feats my_geom')
      | (Inr unit, my_geom') \<Rightarrow>
          (\<lambda>s. case Geounit_save rules unit s of
                  (Inl e, s') \<Rightarrow>
                    bind (print_message (Failed_to_import_geometry (feat_fid feat))) (\<lambda>_.
                    import_features lib rules config level subject_objects feats my_geom') s'
                | (Inr g, s') \<Rightarrow>
                    bind (for_each (import_characteristic rules config feat g) subject_objects)
                      (\<lambda>_.
                    import_features lib rules config level subject_objects feats PyNone) s'))"

text \<open>
  \<^verbatim>\<open>import_shape\<close>.  \<open>datasource\<close> is the file system: the features of the first
  layer of the file at a path, or the exception of \<^verbatim>\<open>DataSource\<close>.
\<close>

definition import_shape ::
  "('g, 'c) geos \<Rightarrow> 'g rules \<Rightarrow> (string option \<Rightarrow> error + 'g feature list) \<Rightarrow>
   gconfig \<Rightarrow> (unit, 'g state) prog" where
  "import_shape lib rules datasource config =
     bind (lift (datasource (shapepath config))) (\<lambda>lyr.
     bind (Geolevel_get (geolevel_name config)) (\<lambda>level.
     bind (subject_objects_of (subject_fields config) []) (\<lambda>subject_objects.
     import_features lib rules config level subject_objects lyr Unbound)))"

text \<open>\<^verbatim>\<open>import_geolevel\<close>, lines 449 to 475.\<close>

definition import_geolevel ::
  "('g, 'c) geos \<Rightarrow> 'g rules \<Rightarrow> (string option \<Rightarrow> error + 'g feature list) \<Rightarrow>
   config \<Rightarrow> geolevel_config \<Rightarrow> (unit, 'g state) prog" where
  "import_geolevel lib rules datasource config geolevel =
     bind (collect_subject_fields config (concat (map lbr_targets (gc_lbodies geolevel))) [])
       (\<lambda>fields.
     import_shape lib rules datasource
       \<lparr>shapepath = gc_shapefile geolevel, geolevel_name = gc_name geolevel,
        name_field = gc_namefield geolevel,
        supplemental_id_field = gc_supplementfield geolevel,
        subject_fields = fields\<rparr>)"

text \<open>
  A value of the option \<^verbatim>\<open>--geolevel\<close>: a string from the command line, or an integer
  when the command is called from Python.
\<close>

datatype optval = OptStr string | OptInt int

text \<open>
  \<^verbatim>\<open>handle\<close>, lines 102 to 113, on a configuration that has just been parsed:
  hierarchy reconciliation, then the import of the chosen geolevels.  (The options for
  views, map server and templates are left out here.)
\<close>

fun import_chosen ::
  "('g, 'c) geos \<Rightarrow> 'g rules \<Rightarrow> (string option \<Rightarrow> error + 'g feature list) \<Rightarrow>
   config \<Rightarrow> optval list \<Rightarrow> nat \<Rightarrow> geolevel_config list \<Rightarrow> (unit, 'g state) prog" where
  "import_chosen lib rules datasource config optlevels i [] = return ()"
| "import_chosen lib rules datasource config optlevels i (geolevel # rest) =
     bind (if length optlevels = 0 \<or> OptInt (int i) \<in> set optlevels
           then import_geolevel lib rules datasource config geolevel
           else return ()) (\<lambda>_.
     import_chosen lib rules datasource config optlevels (Suc i) rest)"

definition handle ::
  "('g, 'c) geos \<Rightarrow> 'g rules \<Rightarrow> (string option \<Rightarrow> error + 'g feature list) \<Rightarrow>
   config \<Rightarrow> optval list option \<Rightarrow> (unit, 'g state) prog" where
  "handle lib rules datasource config optlevels =
     bind (\<lambda>s. (Inr (), s\<lparr>nested := []\<rparr>)) (\<lambda>_.
     bind (import_prereq config) (\<lambda>_.
     case optlevels of
       None \<Rightarrow> return ()
     | Some levels \<Rightarrow> import_chosen lib rules datasource config levels 0 (cf_geolevels config)))"

section \<open>Auxiliary notions for the proofs about hierarchy reconciliation\<close>

text \<open>
  \<open>ext d F\<close>: every catalog table of \<open>d\<close> is an initial part of the same table of
  \<open>F\<close>, up to the fields that the command overwrites (the target of a default, the password
  of a user).  \<open>same F D\<close>: the catalog tables are equal up to these fields.
  \<open>grows m\<close>: the computation only adds rows.  \<open>settled m\<close>: run again from a state that
  holds what a first run has left, the computation adds no row, and either raises or gives
  the result of the first run.
\<close>

definition ext :: "'g state \<Rightarrow> 'g state \<Rightarrow> bool" where
  "ext d F \<longleftrightarrow>
     prefix (legislative_bodies d) (legislative_bodies F) \<and>
     prefix (subjects d) (subjects F) \<and>
     prefix (targets d) (targets F) \<and>
     prefix (geolevels d) (geolevels F) \<and>
     prefix (legislative_levels d) (legislative_levels F) \<and>
     prefix (map ld_legislative_body (legislative_defaults d))
            (map ld_legislative_body (legislative_defaults F)) \<and>
     prefix (map username (users d)) (map username (users F))"

definition same :: "'g state \<Rightarrow> 'g state \<Rightarrow> bool" where
  "same F D \<longleftrightarrow>
     legislative_bodies F = legislative_bodies D \<and>
     subjects F = subjects D \<and>
     targets F = targets D \<and>
     geolevels F = geolevels D \<and>
     legislative_levels F = legislative_levels D \<and>
     map ld_legislative_body (legislative_defaults F) =
       map ld_legislative_body (legislative_defaults D) \<and>
     map username (users F) = map username (users D)"

definition grows :: "('a, 'g state) prog \<Rightarrow> bool" where
  "grows m \<longleftrightarrow> (\<forall>d r d'. m d = (r, d') \<longrightarrow> ext d d')"

definition settled :: "('a, 'g state) prog \<Rightarrow> bool" where
  "settled m \<longleftrightarrow>
     (\<forall>d r d' F D. m d = (r, d') \<and> ext d' F \<and> (isl r \<longrightarrow> same d' F) \<and> same F D \<longrightarrow>
        (\<exists>r' D'. m D = (r', D') \<and> same F D' \<and> (r' = r \<or> isl r')))"


named_theorems grows_intros
named_theorems settled_intros

text \<open>The number of rows of each catalog table.\<close>

definition catalog_counts :: "'g state \<Rightarrow> nat \<times> nat \<times> nat \<times> nat \<times> nat \<times> nat" where
  "catalog_counts s =
     (length (legislative_bodies s), length (subjects s), length (targets s),
      length (geolevels s), length (legislative_levels s), length (legislative_defaults s))"


section \<open>Auxiliary notions: what a computation leaves alone, and examples\<close>

text \<open>\<open>preserves f m\<close>: the computation \<open>m\<close> does not change the part \<open>f\<close> of the state.\<close>

definition preserves :: "('s \<Rightarrow> 'v) \<Rightarrow> ('a, 's) prog \<Rightarrow> bool" where
  "preserves f m \<longleftrightarrow> (\<forall>s r s'. m s = (r, s') \<longrightarrow> f s' = f s)"

named_theorems preserves_intros

text \<open>A database with no rows, and nothing printed.\<close>

definition initial_state :: "'g state" where
  "initial_state =
     \<lparr>legislative_bodies = [], subjects = [], targets = [], geolevels = [],
      legislative_defaults = [], legislative_levels = [], users = [], geounits = [],
      characteristics = [], printed = [], nested = []\<rparr>"

text \<open>
  A configuration with one body, a subject and an alias for it, a target on the alias, and
  two geolevels, the parent before the child.
\<close>

definition example_config :: config where
  "example_config =
     \<lparr>cf_bodies = [\<lparr>bc_id = ''house'', bc_name = Some ''House'', bc_member = Some ''Rep %d'',
                    bc_maxdistricts = Some ''5''\<rparr>],
      cf_subjects =
        [\<lparr>sc_id = ''poptot'', sc_name = Some ''Total Population'', sc_short_name = Some ''Pop'',
          sc_displayed = Some ''true'', sc_sortkey = Some ''1'', sc_aliasfor = None,
          sc_field = Some ''POPTOT''\<rparr>,
         \<lparr>sc_id = ''pop'', sc_name = None, sc_short_name = None, sc_displayed = None,
          sc_sortkey = None, sc_aliasfor = Some ''poptot'', sc_field = Some ''POP''\<rparr>],
      cf_targets =
        [\<lparr>tc_id = ''t1'', tc_subjectref = ''pop'', tc_value = Some ''1000'',
          tc_range1 = Some ''900'', tc_range2 = Some ''1100''\<rparr>],
      cf_geolevels =
        [\<lparr>gc_id = ''county'', gc_name = Some ''county'', gc_min_zoom = Some ''0'',
          gc_sort_key = Some ''1'', gc_shapefile = Some ''county.shp'',
          gc_namefield = Some ''NAME'', gc_supplementfield = None,
          gc_lbodies = [\<lparr>lbr_ref = ''house'', lbr_parent = [],
                         lbr_targets = [\<lparr>ltr_ref = ''t1'', ltr_default = Some ''true''\<rparr>]\<rparr>]\<rparr>,
         \<lparr>gc_id = ''block'', gc_name = Some ''block'', gc_min_zoom = Some ''8'',
          gc_sort_key = Some ''2'', gc_shapefile = Some ''block.shp'',
          gc_namefield = Some ''NAME'', gc_supplementfield = None,
          gc_lbodies = [\<lparr>lbr_ref = ''house'', lbr_parent = [''county''],
                         lbr_targets = [\<lparr>ltr_ref = ''t1'', ltr_default = None\<rparr>]\<rparr>]\<rparr>],
      cf_mapserver = [], cf_database = []\<rparr>"

text \<open>No geolevel row has the name \<open>n\<close>.\<close>

definition no_geolevel_named :: "string option \<Rightarrow> 'g state \<Rightarrow> bool" where
  "no_geolevel_named n s \<longleftrightarrow> (\<forall>x \<in> set (geolevels s). gl_name x \<noteq> n)"

text \<open>
  The parts of \<^verbatim>\<open>import_legislative_target\<close>: lines 564 to 586 (the target and the
  default), lines 588 to 597 (the parent), and both together.
\<close>

definition level_front :: "config \<Rightarrow> nat \<Rightarrow> ltarget_ref \<Rightarrow> (nat, 'g state) prog" where
  "level_front config legislative_body targ =
     bind (lift (xpath_first (Target_by_id config (ltr_ref targ)))) (\<lambda>tconfig.
     bind (lift (xpath_first (Subject_by_id config (tc_subjectref tconfig)))) (\<lambda>sconfig.
     bind (case sc_aliasfor sconfig of
             None \<Rightarrow> return sconfig
           | Some a \<Rightarrow> lift (xpath_first (Subject_by_id config a))) (\<lambda>sconfig.
     bind (Subject_get (sc_id sconfig)) (\<lambda>subject.
     bind (Target_get
             \<lparr>tg_subject = subject, tg_value = tc_value tconfig,
              tg_range1 = tc_range1 tconfig, tg_range2 = tc_range2 tconfig\<rparr>) (\<lambda>target.
     bind (if ltr_default targ \<noteq> None
           then bind (LegislativeDefaults_get_or_create legislative_body) (\<lambda>(obj, created).
                  LegislativeDefaults_set_target obj target)
           else return ()) (\<lambda>_.
     return target))))))"

definition find_parent :: "config \<Rightarrow> lbody_ref \<Rightarrow> nat \<Rightarrow> nat \<Rightarrow> (nat option, 'g state) prog" where
  "find_parent config lbody legislative_body target =
     (case lbr_parent lbody of
        [] \<Rightarrow> return None
      | pref # _ \<Rightarrow>
          bind (lift (xpath_first (GeoLevel_by_id config pref))) (\<lambda>pconfig.
          bind (Geolevel_get (gc_name pconfig)) (\<lambda>plvl.
          bind (LegislativeLevel_get legislative_body plvl target) (\<lambda>parent.
          return (Some parent)))))"

definition level_prelude ::
  "config \<Rightarrow> lbody_ref \<Rightarrow> nat \<Rightarrow> ltarget_ref \<Rightarrow> (nat \<times> nat option, 'g state) prog" where
  "level_prelude config lbody legislative_body targ =
     bind (level_front config legislative_body targ) (\<lambda>target.
     bind (find_parent config lbody legislative_body target) (\<lambda>parent.
     return (target, parent)))"

text \<open>The same configuration with the child geolevel declared before its parent.\<close>

definition misordered_config :: config where
  "misordered_config =
     example_config\<lparr>cf_geolevels := rev (cf_geolevels example_config)\<rparr>"


section \<open>Evaluation of the decimal model on numerals\<close>

lemma ndigits_numeral [simp]:
  "ndigits (numeral k) = (if numeral k < (10::nat) then 1 else Suc (ndigits (numeral k div 10)))"
  by (rule ndigits.simps)

lemma ndigits_0 [simp]: "ndigits 0 = 1"
  by (simp add: ndigits.simps)

lemma ndigits_1 [simp]: "ndigits (Suc 0) = 1"
  by (simp add: ndigits.simps)

section \<open>Lookups in a table that has grown\<close>

lemma matching_append:
  "matching P (xs @ ys) = matching P xs @ map (\<lambda>i. i + length xs) (matching P ys)"
proof -
  have a: "[0..<length xs + length ys] = [0..<length xs] @ map (\<lambda>i. i + length xs) [0..<length ys]"
    using upt_add_eq_append [of 0 "length xs" "length ys"]
    by (simp add: map_add_upt add.commute)
  have b: "filter (\<lambda>i. P ((xs @ ys) ! i)) [0..<length xs] = filter (\<lambda>i. P (xs ! i)) [0..<length xs]"
    by (rule filter_cong) (auto simp: nth_append)
  show ?thesis
    unfolding matching_def length_append a filter_append b filter_map
    by (simp add: comp_def nth_append)
qed

lemma matching_map: "matching (\<lambda>x. Q (f x)) rows = matching Q (map f rows)"
  unfolding matching_def by (auto intro: filter_cong)

lemma matching_bound: "i \<in> set (matching P rows) \<Longrightarrow> i < length rows \<and> P (rows ! i)"
  unfolding matching_def by auto

lemma objects_get_prefix:
  assumes "prefix xs ys" and "objects_get m P xs = Inr i"
  shows "objects_get m P ys = Inr i \<or> objects_get m P ys = Inl (MultipleObjectsReturned m)"
proof -
  from assms(1) obtain zs where ys: "ys = xs @ zs" by (auto simp: prefix_def)
  from assms(2) have mx: "matching P xs = [i]"
    by (auto simp: objects_get_def split: list.splits)
  show ?thesis
    unfolding ys objects_get_def matching_append mx
    by (cases "matching P zs") (auto split: list.splits)
qed

lemma objects_filter_first_prefix:
  assumes "prefix xs ys" and "objects_filter_first P xs = Inr i"
  shows "objects_filter_first P ys = Inr i"
proof -
  from assms(1) obtain zs where ys: "ys = xs @ zs" by (auto simp: prefix_def)
  from assms(2) obtain js where mx: "matching P xs = i # js"
    by (auto simp: objects_filter_first_def split: list.splits)
  show ?thesis
    unfolding ys objects_filter_first_def matching_append mx by simp
qed

lemma get_or_create_prefix: "get_or_create m P r xs = (res, xs') \<Longrightarrow> prefix xs xs'"
  by (auto simp: get_or_create_def split: sum.splits error.splits)

lemma get_or_create_error: "get_or_create m P r xs = (Inl e, xs') \<Longrightarrow> xs' = xs"
  by (auto simp: get_or_create_def split: sum.splits error.splits)

lemma get_or_create_found:
  assumes "P r" and "get_or_create m P r xs = (Inr (i, c), xs')"
  shows "objects_get m P xs' = Inr i"
proof (cases "objects_get m P xs")
  case (Inr j)
  with assms(2) show ?thesis by (auto simp: get_or_create_def)
next
  case (Inl e)
  with assms(2) have e: "e = DoesNotExist m" and x: "xs' = xs @ [r]" and i: "i = length xs"
    by (auto simp: get_or_create_def objects_get_def split: error.splits list.splits)
  from Inl e have "matching P xs = []"
    by (auto simp: objects_get_def split: list.splits)
  moreover have "matching P [r] = [0]" using assms(1) by (simp add: matching_def)
  ultimately show ?thesis
    unfolding x objects_get_def matching_append i by simp
qed

lemma get_or_create_again:
  assumes "P r" and "get_or_create m P r xs = (Inr (i, c), xs')" and "prefix xs' ys"
  shows "get_or_create m P r ys = (Inr (i, False), ys)
       \<or> get_or_create m P r ys = (Inl (MultipleObjectsReturned m), ys)"
  using objects_get_prefix [OF assms(3) get_or_create_found [OF assms(1,2)]]
  by (auto simp: get_or_create_def)

section \<open>Running hierarchy reconciliation again\<close>

lemma ext_refl [simp]: "ext d d"
  by (simp add: ext_def)

lemma ext_trans: "ext a b \<Longrightarrow> ext b c \<Longrightarrow> ext a c"
  unfolding ext_def by (meson prefix_order.trans)

lemma same_refl [simp]: "same d d"
  by (simp add: same_def)

lemma same_trans: "same a b \<Longrightarrow> same b c \<Longrightarrow> same a c"
  by (simp add: same_def)

lemma same_sym: "same a b \<Longrightarrow> same b a"
  by (simp add: same_def)

lemma ext_same: "ext a b \<Longrightarrow> same b c \<Longrightarrow> ext a c"
  by (simp add: ext_def same_def)

lemma same_ext: "same a b \<Longrightarrow> ext b c \<Longrightarrow> ext a c"
  by (simp add: ext_def same_def)


lemma grows_return [grows_intros]: "grows (return x)"
  by (simp add: grows_def return_def)

lemma grows_lift [grows_intros]: "grows (lift r)"
  by (simp add: grows_def lift_def)

lemma grows_bind [grows_intros]:
  assumes "grows m" and "\<And>x. grows (f x)"
  shows "grows (bind m f)"
  unfolding grows_def
proof (intro allI impI)
  fix d r d'
  assume run: "bind m f d = (r, d')"
  obtain r1 d1 where m1: "m d = (r1, d1)" by (cases "m d")
  with assms(1) have e1: "ext d d1" by (auto simp: grows_def)
  show "ext d d'"
  proof (cases r1)
    case (Inl err)
    with run m1 e1 show ?thesis by (auto simp: bind_def)
  next
    case (Inr x)
    with run m1 have "f x d1 = (r, d')" by (auto simp: bind_def)
    with assms(2) [of x] have "ext d1 d'" by (auto simp: grows_def)
    with e1 show ?thesis by (rule ext_trans)
  qed
qed

lemma grows_for_each [grows_intros]:
  assumes "\<And>x. grows (f x)"
  shows "grows (for_each f xs)"
proof (induction xs)
  case Nil
  show ?case by (simp add: grows_return)
next
  case (Cons x xs)
  show ?case by (simp, rule grows_bind, rule assms, rule Cons.IH)
qed

lemma grows_case_prod [grows_intros]:
  "(\<And>a b. grows (f a b)) \<Longrightarrow> grows (case p of (a, b) \<Rightarrow> f a b)"
  by (cases p) simp

lemma grows_if [grows_intros]:
  "grows a \<Longrightarrow> grows b \<Longrightarrow> grows (if c then a else b)"
  by simp

lemma grows_case_option [grows_intros]:
  "grows a \<Longrightarrow> (\<And>x. grows (b x)) \<Longrightarrow> grows (case v of None \<Rightarrow> a | Some x \<Rightarrow> b x)"
  by (cases v) simp_all

lemma grows_case_list [grows_intros]:
  "grows a \<Longrightarrow> (\<And>x xs. grows (b x xs)) \<Longrightarrow> grows (case v of [] \<Rightarrow> a | x # xs \<Rightarrow> b x xs)"
  by (cases v) simp_all

lemma settled_pure: "settled (\<lambda>s. (v, s))"
  unfolding settled_def
proof (intro allI impI, elim conjE)
  fix d r d' F D
  assume "(v, d) = (r, d')" and s: "same F D"
  then have r: "r = v" by simp
  show "\<exists>r' D'. (v, D) = (r', D') \<and> same F D' \<and> (r' = r \<or> isl r')"
    by (rule exI [of _ v], rule exI [of _ D]) (simp add: r s)
qed

lemma settled_return [settled_intros]: "settled (return x)"
  unfolding return_def by (rule settled_pure)

lemma settled_lift [settled_intros]: "settled (lift r)"
  unfolding lift_def by (rule settled_pure)

lemma settled_bind [settled_intros]:
  assumes m: "settled m" and f: "\<And>x. settled (f x)" and g: "\<And>x. grows (f x)"
  shows "settled (bind m f)"
  unfolding settled_def
proof (intro allI impI, elim conjE)
  fix d r d' F D
  assume run: "bind m f d = (r, d')" and e: "ext d' F" and i: "isl r \<longrightarrow> same d' F"
    and s: "same F D"
  obtain r1 d1 where m1: "m d = (r1, d1)" by (cases "m d")
  show "\<exists>r' D'. bind m f D = (r', D') \<and> same F D' \<and> (r' = r \<or> isl r')"
  proof (cases r1)
    case (Inl err)
    with run m1 have "r = Inl err" "d' = d1" by (auto simp: bind_def)
    with m [unfolded settled_def, rule_format, of d r1 d1 F D] m1 e i s Inl
    obtain r' D' where "m D = (r', D')" "same F D'" "isl r'"
      by auto
    then show ?thesis by (cases r') (auto simp: bind_def)
  next
    case (Inr x)
    with run m1 have fx: "f x d1 = (r, d')" by (auto simp: bind_def)
    from g [of x] fx have "ext d1 d'" by (auto simp: grows_def)
    then have e1: "ext d1 F" using e by (rule ext_trans)
    from m [unfolded settled_def, rule_format, of d r1 d1 F D] m1 e1 s Inr
    obtain r' D' where mD: "m D = (r', D')" and sD: "same F D'" and rr: "r' = Inr x \<or> isl r'"
      by auto
    show ?thesis
    proof (cases r')
      case (Inl err)
      with mD sD show ?thesis by (auto simp: bind_def)
    next
      case (Inr y)
      with rr have "y = x" by auto
      with Inr mD have b: "bind m f D = f x D'" by (simp add: bind_def)
      from f [of x, unfolded settled_def, rule_format, of d1 r d' F D'] fx e i sD
      show ?thesis unfolding b by auto
    qed
  qed
qed

lemma settled_for_each [settled_intros]:
  assumes "\<And>x. settled (f x)" and "\<And>x. grows (f x)"
  shows "settled (for_each f xs)"
proof (induction xs)
  case Nil
  show ?case by (simp add: settled_return)
next
  case (Cons x xs)
  show ?case
    by (simp, rule settled_bind, rule assms(1), rule Cons.IH, rule grows_for_each, rule assms(2))
qed

lemma settled_case_prod [settled_intros]:
  "(\<And>a b. settled (f a b)) \<Longrightarrow> settled (case p of (a, b) \<Rightarrow> f a b)"
  by (cases p) simp

lemma settled_if [settled_intros]:
  "settled a \<Longrightarrow> settled b \<Longrightarrow> settled (if c then a else b)"
  by simp

lemma settled_case_option [settled_intros]:
  "settled a \<Longrightarrow> (\<And>x. settled (b x)) \<Longrightarrow> settled (case v of None \<Rightarrow> a | Some x \<Rightarrow> b x)"
  by (cases v) simp_all

lemma settled_case_list [settled_intros]:
  "settled a \<Longrightarrow> (\<And>x xs. settled (b x xs)) \<Longrightarrow>
   settled (case v of [] \<Rightarrow> a | x # xs \<Rightarrow> b x xs)"
  by (cases v) simp_all

lemma objects_get_map: "objects_get m (\<lambda>x. Q (f x)) rows = objects_get m Q (map f rows)"
  by (simp add: objects_get_def matching_map)

lemma get_or_create_map_error:
  assumes "map key xs = map key ys"
    and "get_or_create m (\<lambda>x. Q (key x)) r xs = (Inl e, xs')"
  shows "get_or_create m (\<lambda>x. Q (key x)) r ys = (Inl e, ys)"
proof -
  have "objects_get m (\<lambda>x. Q (key x)) ys = objects_get m (\<lambda>x. Q (key x)) xs"
    by (simp add: objects_get_map assms(1))
  with assms(2) show ?thesis
    by (auto simp: get_or_create_def split: sum.splits error.splits)
qed

lemma get_or_create_map_again:
  assumes "Q (key r)"
    and "get_or_create m (\<lambda>x. Q (key x)) r xs = (Inr (i, c), xs')"
    and "prefix (map key xs') (map key ys)"
  shows "get_or_create m (\<lambda>x. Q (key x)) r ys = (Inr (i, False), ys)
       \<or> get_or_create m (\<lambda>x. Q (key x)) r ys = (Inl (MultipleObjectsReturned m), ys)"
proof -
  have "objects_get m (\<lambda>x. Q (key x)) xs' = Inr i"
    using assms(1,2) by (rule get_or_create_found)
  then have "objects_get m Q (map key xs') = Inr i"
    by (simp add: objects_get_map)
  from objects_get_prefix [OF assms(3) this]
  have "objects_get m (\<lambda>x. Q (key x)) ys = Inr i
      \<or> objects_get m (\<lambda>x. Q (key x)) ys = Inl (MultipleObjectsReturned m)"
    by (simp add: objects_get_map)
  then show ?thesis
    by (auto simp: get_or_create_def)
qed

lemma settled_goc:
  fixes tbl :: "'g state \<Rightarrow> 'r list" and put :: "'r list \<Rightarrow> 'g state \<Rightarrow> 'g state"
    and key :: "'r \<Rightarrow> 'k"
  assumes G: "\<And>s. G s = (case get_or_create m (\<lambda>x. Q (key x)) r (tbl s) of
                            (res, rows) \<Rightarrow> (res, put rows s))"
    and Pr: "Q (key r)"
    and put_get: "\<And>s. put (tbl s) s = s"
    and ext_tbl: "\<And>d rows F. ext (put rows d) F \<Longrightarrow> prefix (map key rows) (map key (tbl F))"
    and same_tbl: "\<And>F D. same F D \<Longrightarrow> map key (tbl F) = map key (tbl D)"
    and h: "\<And>i c. h (i, c) = f i"
    and f: "\<And>i. settled (f i)" and g: "\<And>i. grows (f i)"
  shows "settled (bind G h)"
  unfolding settled_def
proof (intro allI impI, elim conjE)
  fix d r0 d' F D
  assume run: "bind G h d = (r0, d')" and e: "ext d' F" and i: "isl r0 \<longrightarrow> same d' F"
    and s: "same F D"
  obtain res rows where goc: "get_or_create m (\<lambda>x. Q (key x)) r (tbl d) = (res, rows)"
    by (cases "get_or_create m (\<lambda>x. Q (key x)) r (tbl d)")
  then have Gd: "G d = (res, put rows d)" by (simp add: G)
  show "\<exists>r' D'. bind G h D = (r', D') \<and> same F D' \<and> (r' = r0 \<or> isl r')"
  proof (cases res)
    case (Inl err)
    with goc have rows: "rows = tbl d" by (auto dest: get_or_create_error)
    with Gd Inl have Gd': "G d = (Inl err, d)" by (simp add: put_get)
    with run have r0: "r0 = Inl err" and d': "d' = d" by (auto simp: bind_def)
    with i have sdF: "same d F" by simp
    have "map key (tbl d) = map key (tbl D)"
      using same_tbl [OF sdF] same_tbl [OF s] by simp
    from get_or_create_map_error [OF this goc [unfolded Inl]]
    have "G D = (Inl err, D)" by (simp add: G put_get)
    then have "bind G h D = (Inl err, D)" by (simp add: bind_def)
    with s r0 show ?thesis by auto
  next
    case (Inr v)
    obtain j c where v: "v = (j, c)" by (cases v)
    with run Gd Inr have fj: "f j (put rows d) = (r0, d')" by (simp add: bind_def h)
    with g [of j] have "ext (put rows d) d'" by (auto simp: grows_def)
    then have "ext (put rows d) F" using e by (rule ext_trans)
    then have "prefix (map key rows) (map key (tbl D))"
      using ext_tbl same_tbl [OF s] by metis
    from get_or_create_map_again [OF Pr goc [unfolded Inr v] this]
    consider "G D = (Inr (j, False), D)" | "G D = (Inl (MultipleObjectsReturned m), D)"
      by (auto simp: G put_get)
    then show ?thesis
    proof cases
      case 1
      then have b: "bind G h D = f j D" by (simp add: bind_def h)
      from f [of j, unfolded settled_def, rule_format, of "put rows d" r0 d' F D] fj e i s
      show ?thesis unfolding b by auto
    next
      case 2
      then have "bind G h D = (Inl (MultipleObjectsReturned m), D)" by (simp add: bind_def)
      with s show ?thesis by auto
    qed
  qed
qed

lemma settled_get:
  fixes tbl :: "'g state \<Rightarrow> 'r list"
  assumes ext_tbl: "\<And>d F. ext d F \<Longrightarrow> prefix (tbl d) (tbl F)"
    and same_tbl: "\<And>F D. same F D \<Longrightarrow> tbl F = tbl D"
  shows "settled (\<lambda>s. (objects_get m P (tbl s), s))"
  unfolding settled_def
proof (intro allI impI, elim conjE)
  fix d r d' F D
  assume run: "(objects_get m P (tbl d), d) = (r, d')" and e: "ext d' F"
    and i: "isl r \<longrightarrow> same d' F" and s: "same F D"
  from run have r: "r = objects_get m P (tbl d)" and d': "d' = d" by auto
  have "objects_get m P (tbl D) = r \<or> isl (objects_get m P (tbl D))"
  proof (cases r)
    case (Inl err)
    with i d' have "same d F" by simp
    then have "tbl d = tbl D" using same_tbl s by metis
    then show ?thesis by (simp add: r)
  next
    case (Inr j)
    from e d' have "prefix (tbl d) (tbl D)" using ext_tbl same_tbl [OF s] by metis
    from objects_get_prefix [OF this] Inr r show ?thesis by (metis sum.disc(1))
  qed
  then show "\<exists>r' D'. (objects_get m P (tbl D), D) = (r', D') \<and> same F D' \<and> (r' = r \<or> isl r')"
    using s by auto
qed

lemma settled_filter_first:
  fixes tbl :: "'g state \<Rightarrow> 'r list"
  assumes ext_tbl: "\<And>d F. ext d F \<Longrightarrow> prefix (tbl d) (tbl F)"
    and same_tbl: "\<And>F D. same F D \<Longrightarrow> tbl F = tbl D"
  shows "settled (\<lambda>s. (objects_filter_first P (tbl s), s))"
  unfolding settled_def
proof (intro allI impI, elim conjE)
  fix d r d' F D
  assume run: "(objects_filter_first P (tbl d), d) = (r, d')" and e: "ext d' F"
    and i: "isl r \<longrightarrow> same d' F" and s: "same F D"
  from run have r: "r = objects_filter_first P (tbl d)" and d': "d' = d" by auto
  have "objects_filter_first P (tbl D) = r"
  proof (cases r)
    case (Inl err)
    with i d' have "same d F" by simp
    then have "tbl d = tbl D" using same_tbl s by metis
    then show ?thesis by (simp add: r)
  next
    case (Inr j)
    from e d' have "prefix (tbl d) (tbl D)" using ext_tbl same_tbl [OF s] by metis
    from objects_filter_first_prefix [OF this] Inr r show ?thesis by metis
  qed
  then show "\<exists>r' D'. (objects_filter_first P (tbl D), D) = (r', D') \<and> same F D' \<and> (r' = r \<or> isl r')"
    using s by auto
qed

lemma grows_LegislativeBody_get_or_create [grows_intros]: "grows (LegislativeBody_get_or_create r)"
  unfolding grows_def LegislativeBody_get_or_create_def
  by (auto simp: ext_def split: prod.splits dest!: get_or_create_prefix intro: map_mono_prefix)

lemma settled_LegislativeBody_get_or_create:
  assumes "\<And>i c. h (i, c) = f i" and "\<And>i. settled (f i)" and "\<And>i. grows (f i)"
  shows "settled (bind (LegislativeBody_get_or_create r) h)"
proof (rule settled_goc [where key = "\<lambda>x. x" and Q = "\<lambda>x. x = r" and tbl = legislative_bodies
      and put = "\<lambda>rows s. s\<lparr>legislative_bodies := rows\<rparr>" and f = f])
  show "\<And>s. (LegislativeBody_get_or_create r) s =
      (case get_or_create ''LegislativeBody'' (\<lambda>x. (\<lambda>x. x = r) ((\<lambda>x. x) x)) r (legislative_bodies s) of
         (res, rows) \<Rightarrow> (res, s\<lparr>legislative_bodies := rows\<rparr>))"
    by (simp add: LegislativeBody_get_or_create_def)
  show "\<And>d rows F. ext (d\<lparr>legislative_bodies := rows\<rparr>) F \<Longrightarrow>
      prefix (map (\<lambda>x. x) rows) (map (\<lambda>x. x) (legislative_bodies F))"
    by (simp add: ext_def)
  show "\<And>F D. same F D \<Longrightarrow> map (\<lambda>x. x) (legislative_bodies F) = map (\<lambda>x. x) (legislative_bodies D)"
    by (simp add: same_def)
qed (simp_all add: assms)

lemma grows_Subject_get_or_create [grows_intros]: "grows (Subject_get_or_create r)"
  unfolding grows_def Subject_get_or_create_def
  by (auto simp: ext_def split: prod.splits dest!: get_or_create_prefix intro: map_mono_prefix)

lemma settled_Subject_get_or_create:
  assumes "\<And>i c. h (i, c) = f i" and "\<And>i. settled (f i)" and "\<And>i. grows (f i)"
  shows "settled (bind (Subject_get_or_create r) h)"
proof (rule settled_goc [where key = "\<lambda>x. x" and Q = "\<lambda>x. x = r" and tbl = subjects
      and put = "\<lambda>rows s. s\<lparr>subjects := rows\<rparr>" and f = f])
  show "\<And>s. (Subject_get_or_create r) s =
      (case get_or_create ''Subject'' (\<lambda>x. (\<lambda>x. x = r) ((\<lambda>x. x) x)) r (subjects s) of
         (res, rows) \<Rightarrow> (res, s\<lparr>subjects := rows\<rparr>))"
    by (simp add: Subject_get_or_create_def)
  show "\<And>d rows F. ext (d\<lparr>subjects := rows\<rparr>) F \<Longrightarrow>
      prefix (map (\<lambda>x. x) rows) (map (\<lambda>x. x) (subjects F))"
    by (simp add: ext_def)
  show "\<And>F D. same F D \<Longrightarrow> map (\<lambda>x. x) (subjects F) = map (\<lambda>x. x) (subjects D)"
    by (simp add: same_def)
qed (simp_all add: assms)

lemma grows_Target_get_or_create [grows_intros]: "grows (Target_get_or_create r)"
  unfolding grows_def Target_get_or_create_def
  by (auto simp: ext_def split: prod.splits dest!: get_or_create_prefix intro: map_mono_prefix)

lemma settled_Target_get_or_create:
  assumes "\<And>i c. h (i, c) = f i" and "\<And>i. settled (f i)" and "\<And>i. grows (f i)"
  shows "settled (bind (Target_get_or_create r) h)"
proof (rule settled_goc [where key = "\<lambda>x. x" and Q = "\<lambda>x. x = r" and tbl = targets
      and put = "\<lambda>rows s. s\<lparr>targets := rows\<rparr>" and f = f])
  show "\<And>s. (Target_get_or_create r) s =
      (case get_or_create ''Target'' (\<lambda>x. (\<lambda>x. x = r) ((\<lambda>x. x) x)) r (targets s) of
         (res, rows) \<Rightarrow> (res, s\<lparr>targets := rows\<rparr>))"
    by (simp add: Target_get_or_create_def)
  show "\<And>d rows F. ext (d\<lparr>targets := rows\<rparr>) F \<Longrightarrow>
      prefix (map (\<lambda>x. x) rows) (map (\<lambda>x. x) (targets F))"
    by (simp add: ext_def)
  show "\<And>F D. same F D \<Longrightarrow> map (\<lambda>x. x) (targets F) = map (\<lambda>x. x) (targets D)"
    by (simp add: same_def)
qed (simp_all add: assms)

lemma grows_Geolevel_get_or_create [grows_intros]: "grows (Geolevel_get_or_create r)"
  unfolding grows_def Geolevel_get_or_create_def
  by (auto simp: ext_def split: prod.splits dest!: get_or_create_prefix intro: map_mono_prefix)

lemma settled_Geolevel_get_or_create:
  assumes "\<And>i c. h (i, c) = f i" and "\<And>i. settled (f i)" and "\<And>i. grows (f i)"
  shows "settled (bind (Geolevel_get_or_create r) h)"
proof (rule settled_goc [where key = "\<lambda>x. x" and Q = "\<lambda>x. x = r" and tbl = geolevels
      and put = "\<lambda>rows s. s\<lparr>geolevels := rows\<rparr>" and f = f])
  show "\<And>s. (Geolevel_get_or_create r) s =
      (case get_or_create ''Geolevel'' (\<lambda>x. (\<lambda>x. x = r) ((\<lambda>x. x) x)) r (geolevels s) of
         (res, rows) \<Rightarrow> (res, s\<lparr>geolevels := rows\<rparr>))"
    by (simp add: Geolevel_get_or_create_def)
  show "\<And>d rows F. ext (d\<lparr>geolevels := rows\<rparr>) F \<Longrightarrow>
      prefix (map (\<lambda>x. x) rows) (map (\<lambda>x. x) (geolevels F))"
    by (simp add: ext_def)
  show "\<And>F D. same F D \<Longrightarrow> map (\<lambda>x. x) (geolevels F) = map (\<lambda>x. x) (geolevels D)"
    by (simp add: same_def)
qed (simp_all add: assms)

lemma grows_LegislativeLevel_get_or_create [grows_intros]: "grows (LegislativeLevel_get_or_create r)"
  unfolding grows_def LegislativeLevel_get_or_create_def
  by (auto simp: ext_def split: prod.splits dest!: get_or_create_prefix intro: map_mono_prefix)

lemma settled_LegislativeLevel_get_or_create:
  assumes "\<And>i c. h (i, c) = f i" and "\<And>i. settled (f i)" and "\<And>i. grows (f i)"
  shows "settled (bind (LegislativeLevel_get_or_create r) h)"
proof (rule settled_goc [where key = "\<lambda>x. x" and Q = "\<lambda>x. x = r" and tbl = legislative_levels
      and put = "\<lambda>rows s. s\<lparr>legislative_levels := rows\<rparr>" and f = f])
  show "\<And>s. (LegislativeLevel_get_or_create r) s =
      (case get_or_create ''LegislativeLevel'' (\<lambda>x. (\<lambda>x. x = r) ((\<lambda>x. x) x)) r (legislative_levels s) of
         (res, rows) \<Rightarrow> (res, s\<lparr>legislative_levels := rows\<rparr>))"
    by (simp add: LegislativeLevel_get_or_create_def)
  show "\<And>d rows F. ext (d\<lparr>legislative_levels := rows\<rparr>) F \<Longrightarrow>
      prefix (map (\<lambda>x. x) rows) (map (\<lambda>x. x) (legislative_levels F))"
    by (simp add: ext_def)
  show "\<And>F D. same F D \<Longrightarrow> map (\<lambda>x. x) (legislative_levels F) = map (\<lambda>x. x) (legislative_levels D)"
    by (simp add: same_def)
qed (simp_all add: assms)

lemma grows_LegislativeDefaults_get_or_create [grows_intros]: "grows (LegislativeDefaults_get_or_create b)"
  unfolding grows_def LegislativeDefaults_get_or_create_def
  by (auto simp: ext_def split: prod.splits dest!: get_or_create_prefix intro: map_mono_prefix)

lemma settled_LegislativeDefaults_get_or_create:
  assumes "\<And>i c. h (i, c) = f i" and "\<And>i. settled (f i)" and "\<And>i. grows (f i)"
  shows "settled (bind (LegislativeDefaults_get_or_create b) h)"
proof (rule settled_goc [where key = "ld_legislative_body" and Q = "\<lambda>k. k = b" and tbl = legislative_defaults
      and put = "\<lambda>rows s. s\<lparr>legislative_defaults := rows\<rparr>" and f = f])
  show "\<And>s. (LegislativeDefaults_get_or_create b) s =
      (case get_or_create ''LegislativeDefaults'' (\<lambda>x. (\<lambda>k. k = b) ((ld_legislative_body) x)) \<lparr>ld_legislative_body = b, ld_target = None\<rparr> (legislative_defaults s) of
         (res, rows) \<Rightarrow> (res, s\<lparr>legislative_defaults := rows\<rparr>))"
    by (simp add: LegislativeDefaults_get_or_create_def)
  show "\<And>d rows F. ext (d\<lparr>legislative_defaults := rows\<rparr>) F \<Longrightarrow>
      prefix (map (ld_legislative_body) rows) (map (ld_legislative_body) (legislative_defaults F))"
    by (simp add: ext_def)
  show "\<And>F D. same F D \<Longrightarrow> map (ld_legislative_body) (legislative_defaults F) = map (ld_legislative_body) (legislative_defaults D)"
    by (simp add: same_def)
qed (simp_all add: assms)

lemma grows_LegislativeBody_get [grows_intros]: "grows (LegislativeBody_get n)"
  unfolding grows_def by (auto simp: LegislativeBody_get_def)

lemma settled_LegislativeBody_get [settled_intros]: "settled (LegislativeBody_get n)"
proof -
  have eq: "LegislativeBody_get n = (\<lambda>s. (fst (LegislativeBody_get n s), s))"
    by (rule ext) (simp add: LegislativeBody_get_def)
  have st: "settled (\<lambda>s. (fst (LegislativeBody_get n s), s))"
    unfolding LegislativeBody_get_def fst_conv
    by (rule settled_get [where tbl = legislative_bodies]) (simp_all add: ext_def same_def)
  show ?thesis by (subst eq) (rule st)
qed

lemma grows_Subject_get [grows_intros]: "grows (Subject_get n)"
  unfolding grows_def by (auto simp: Subject_get_def)

lemma settled_Subject_get [settled_intros]: "settled (Subject_get n)"
proof -
  have eq: "Subject_get n = (\<lambda>s. (fst (Subject_get n s), s))"
    by (rule ext) (simp add: Subject_get_def)
  have st: "settled (\<lambda>s. (fst (Subject_get n s), s))"
    unfolding Subject_get_def fst_conv
    by (rule settled_get [where tbl = subjects]) (simp_all add: ext_def same_def)
  show ?thesis by (subst eq) (rule st)
qed

lemma grows_Subject_filter_first [grows_intros]: "grows (Subject_filter_first n)"
  unfolding grows_def by (auto simp: Subject_filter_first_def)

lemma settled_Subject_filter_first [settled_intros]: "settled (Subject_filter_first n)"
proof -
  have eq: "Subject_filter_first n = (\<lambda>s. (fst (Subject_filter_first n s), s))"
    by (rule ext) (simp add: Subject_filter_first_def)
  have st: "settled (\<lambda>s. (fst (Subject_filter_first n s), s))"
    unfolding Subject_filter_first_def fst_conv
    by (rule settled_filter_first [where tbl = subjects]) (simp_all add: ext_def same_def)
  show ?thesis by (subst eq) (rule st)
qed

lemma grows_Target_get [grows_intros]: "grows (Target_get r)"
  unfolding grows_def by (auto simp: Target_get_def)

lemma settled_Target_get [settled_intros]: "settled (Target_get r)"
proof -
  have eq: "Target_get r = (\<lambda>s. (fst (Target_get r s), s))"
    by (rule ext) (simp add: Target_get_def)
  have st: "settled (\<lambda>s. (fst (Target_get r s), s))"
    unfolding Target_get_def fst_conv
    by (rule settled_get [where tbl = targets]) (simp_all add: ext_def same_def)
  show ?thesis by (subst eq) (rule st)
qed

lemma grows_Geolevel_get [grows_intros]: "grows (Geolevel_get n)"
  unfolding grows_def by (auto simp: Geolevel_get_def)

lemma settled_Geolevel_get [settled_intros]: "settled (Geolevel_get n)"
proof -
  have eq: "Geolevel_get n = (\<lambda>s. (fst (Geolevel_get n s), s))"
    by (rule ext) (simp add: Geolevel_get_def)
  have st: "settled (\<lambda>s. (fst (Geolevel_get n s), s))"
    unfolding Geolevel_get_def fst_conv
    by (rule settled_get [where tbl = geolevels]) (simp_all add: ext_def same_def)
  show ?thesis by (subst eq) (rule st)
qed

lemma grows_LegislativeLevel_get [grows_intros]: "grows (LegislativeLevel_get b g t)"
  unfolding grows_def by (auto simp: LegislativeLevel_get_def)

lemma settled_LegislativeLevel_get [settled_intros]: "settled (LegislativeLevel_get b g t)"
proof -
  have eq: "LegislativeLevel_get b g t = (\<lambda>s. (fst (LegislativeLevel_get b g t s), s))"
    by (rule ext) (simp add: LegislativeLevel_get_def)
  have st: "settled (\<lambda>s. (fst (LegislativeLevel_get b g t s), s))"
    unfolding LegislativeLevel_get_def fst_conv
    by (rule settled_get [where tbl = legislative_levels]) (simp_all add: ext_def same_def)
  show ?thesis by (subst eq) (rule st)
qed

lemma map_key_update: "f y = f (xs ! i) \<Longrightarrow> map f (xs[i := y]) = map f xs"
  by (induction xs arbitrary: i) (auto split: nat.splits)

lemma LegislativeDefaults_set_target_keys:
  "LegislativeDefaults_set_target i t s = (r, s') \<Longrightarrow> r = Inr () \<and> same s s'"
  by (auto simp: LegislativeDefaults_set_target_def same_def map_key_update)

lemma User_set_password_keys:
  "User_set_password i p s = (r, s') \<Longrightarrow> r = Inr () \<and> same s s'"
  by (auto simp: User_set_password_def same_def map_key_update)

lemma grows_LegislativeDefaults_set_target [grows_intros]:
  "grows (LegislativeDefaults_set_target i t)"
  unfolding grows_def
  by (metis LegislativeDefaults_set_target_keys ext_refl ext_same)

lemma settled_LegislativeDefaults_set_target [settled_intros]:
  "settled (LegislativeDefaults_set_target i t)"
  unfolding settled_def
proof (intro allI impI, elim conjE)
  fix d r d' F D
  assume run: "LegislativeDefaults_set_target i t d = (r, d')" and s: "same F D"
  obtain r' D' where D: "LegislativeDefaults_set_target i t D = (r', D')"
    by (cases "LegislativeDefaults_set_target i t D")
  from LegislativeDefaults_set_target_keys [OF run] LegislativeDefaults_set_target_keys [OF D]
  have "r' = r" and "same D D'" by auto
  with s D show "\<exists>r' D'. LegislativeDefaults_set_target i t D = (r', D') \<and> same F D' \<and> (r' = r \<or> isl r')"
    by (metis same_trans)
qed

lemma grows_User_set_password [grows_intros]: "grows (User_set_password i p)"
  unfolding grows_def
  by (metis User_set_password_keys ext_refl ext_same)

lemma grows_User_get_or_create [grows_intros]: "grows (User_get_or_create n)"
  unfolding grows_def User_get_or_create_def
  by (auto simp: ext_def split: prod.splits dest!: get_or_create_prefix intro: map_mono_prefix)

lemma grows_import_body [grows_intros]: "grows (import_body b)"
  unfolding import_body_def by (intro grows_intros)

lemma settled_import_body [settled_intros]: "settled (import_body b)"
  unfolding import_body_def
  by (rule settled_LegislativeBody_get_or_create [where f = "\<lambda>_. return ()"])
     (simp_all add: settled_return grows_return)

lemma grows_import_subject [grows_intros]: "grows (import_subject b)"
  unfolding import_subject_def by (intro grows_intros)

lemma settled_import_subject [settled_intros]: "settled (import_subject b)"
  unfolding import_subject_def
  by (intro settled_if settled_return,
      rule settled_Subject_get_or_create [where f = "\<lambda>_. return ()"])
     (simp_all add: settled_return grows_return)

lemma grows_import_target [grows_intros]: "grows (import_target config t)"
  unfolding import_target_def by (intro grows_intros)

lemma settled_target_part:
  "settled (bind (Target_get_or_create r) (\<lambda>_. return ()))"
  by (rule settled_Target_get_or_create [where f = "\<lambda>_. return ()"])
     (simp_all add: settled_return grows_return)

lemma settled_import_target [settled_intros]: "settled (import_target config t)"
  unfolding import_target_def
  by (intro settled_target_part settled_bind settled_lift settled_case_option settled_return
      settled_Subject_filter_first grows_intros)

lemma grows_import_legislative_target [grows_intros]:
  "grows (import_legislative_target config glvl lbody b targ)"
  unfolding import_legislative_target_def by (intro grows_intros)

lemma settled_default_part:
  "settled (if c then bind (LegislativeDefaults_get_or_create b)
                        (\<lambda>(obj, created). LegislativeDefaults_set_target obj t)
            else return ())"
  by (intro settled_if settled_return,
      rule settled_LegislativeDefaults_get_or_create
        [where f = "\<lambda>obj. LegislativeDefaults_set_target obj t"])
     (simp_all add: settled_LegislativeDefaults_set_target grows_LegislativeDefaults_set_target)

lemma settled_level_part:
  "settled (bind (LegislativeLevel_get_or_create r) (\<lambda>_. return ()))"
  by (rule settled_LegislativeLevel_get_or_create [where f = "\<lambda>_. return ()"])
     (simp_all add: settled_return grows_return)

lemma settled_import_legislative_target [settled_intros]:
  "settled (import_legislative_target config glvl lbody b targ)"
  unfolding import_legislative_target_def
  by (intro settled_default_part settled_level_part settled_bind settled_lift
      settled_case_option settled_case_list settled_return settled_Subject_get
      settled_Target_get settled_Geolevel_get settled_LegislativeLevel_get grows_intros)

lemma grows_import_legislative_body_ref [grows_intros]:
  "grows (import_legislative_body_ref config glvl lbody)"
  unfolding import_legislative_body_ref_def by (intro grows_intros)

lemma settled_import_legislative_body_ref [settled_intros]:
  "settled (import_legislative_body_ref config glvl lbody)"
  unfolding import_legislative_body_ref_def
  by (intro settled_bind settled_lift settled_LegislativeBody_get settled_for_each
      settled_import_legislative_target grows_intros)

lemma grows_import_geolevel_prereq [grows_intros]:
  "grows (import_geolevel_prereq config g)"
  unfolding import_geolevel_prereq_def by (intro grows_intros)

lemma settled_import_geolevel_prereq [settled_intros]:
  "settled (import_geolevel_prereq config g)"
  unfolding import_geolevel_prereq_def
  by (rule settled_Geolevel_get_or_create
        [where f = "\<lambda>glvl. for_each (import_legislative_body_ref config glvl) (gc_lbodies g)"])
     (simp_all add: settled_for_each settled_import_legislative_body_ref
        grows_for_each grows_import_legislative_body_ref)

lemma grows_create_anonymous [grows_intros]: "grows create_anonymous"
  unfolding create_anonymous_def by (intro grows_intros)

lemma state_users_id: "(s :: 'g state)\<lparr>users := users s\<rparr> = s"
  by simp

lemma User_get_or_create_error:
  assumes "User_get_or_create n d = (Inl e, d')"
  shows "d' = d"
    and "map username (users D) = map username (users d) \<Longrightarrow> User_get_or_create n D = (Inl e, D)"
proof -
  obtain res rows where goc:
    "get_or_create ''User'' (\<lambda>x. username x = n) \<lparr>username = n, password = None\<rparr> (users d)
       = (res, rows)"
    by (cases "get_or_create ''User'' (\<lambda>x. username x = n) \<lparr>username = n, password = None\<rparr> (users d)")
  with assms have res: "res = Inl e" and d': "d' = d\<lparr>users := rows\<rparr>"
    by (simp_all add: User_get_or_create_def)
  from goc res have rows: "rows = users d" by (auto dest: get_or_create_error)
  show "d' = d" unfolding d' rows by (rule state_users_id)
  assume "map username (users D) = map username (users d)"
  then have "map username (users d) = map username (users D)" by simp
  from get_or_create_map_error [where Q = "\<lambda>k. k = n", OF this goc [unfolded res]]
  have "get_or_create ''User'' (\<lambda>x. username x = n) \<lparr>username = n, password = None\<rparr> (users D)
       = (Inl e, users D)" .
  then show "User_get_or_create n D = (Inl e, D)"
    unfolding User_get_or_create_def by (simp only: prod.case state_users_id)
qed

lemma User_get_or_create_again:
  assumes "User_get_or_create n d = (Inr (j, c), d')"
    and "prefix (map username (users d')) (map username (users D))"
  shows "User_get_or_create n D = (Inr (j, False), D)
       \<or> User_get_or_create n D = (Inl (MultipleObjectsReturned ''User''), D)"
proof -
  obtain res rows where goc:
    "get_or_create ''User'' (\<lambda>x. username x = n) \<lparr>username = n, password = None\<rparr> (users d)
       = (res, rows)"
    by (cases "get_or_create ''User'' (\<lambda>x. username x = n) \<lparr>username = n, password = None\<rparr> (users d)")
  with assms(1) have res: "res = Inr (j, c)" and d': "d' = d\<lparr>users := rows\<rparr>"
    by (simp_all add: User_get_or_create_def)
  from assms(2) have p: "prefix (map username rows) (map username (users D))"
    unfolding d' by simp
  have q: "username \<lparr>username = n, password = None\<rparr> = n" by simp
  from get_or_create_map_again [where Q = "\<lambda>k. k = n", OF q goc [unfolded res] p]
  show ?thesis
    unfolding User_get_or_create_def
    by (elim disjE) (simp_all only: prod.case state_users_id simp_thms)
qed

lemma create_anonymous_result:
  assumes "User_get_or_create ''anonymous'' d = (Inr (j, c), d1)"
    and "create_anonymous d = (r, d')"
  shows "r = Inr () \<and> same d1 d'"
proof -
  from assms have "(if \<not> c then User_set_password j ''anonymous'' else return ()) d1 = (r, d')"
    by (simp add: create_anonymous_def bind_def)
  then show ?thesis
    by (cases c) (auto simp: return_def dest: User_set_password_keys)
qed

lemma settled_create_anonymous [settled_intros]: "settled (create_anonymous :: (unit, 'g state) prog)"
  unfolding settled_def
proof (intro allI impI, elim conjE)
  fix d :: "'g state" and r d' F D
  assume run: "create_anonymous d = (r, d')" and e: "ext d' F" and i: "isl r \<longrightarrow> same d' F"
    and s: "same F D"
  obtain res d1 where goc: "User_get_or_create ''anonymous'' d = (res, d1)"
    by (cases "User_get_or_create ''anonymous'' d")
  show "\<exists>r' D'. create_anonymous D = (r', D') \<and> same F D' \<and> (r' = r \<or> isl r')"
  proof (cases res)
    case (Inl err)
    from goc run Inl have r: "r = Inl err" and d': "d' = d1"
      by (simp_all add: create_anonymous_def bind_def)
    from User_get_or_create_error(1) [OF goc [unfolded Inl]] have d1: "d1 = d" .
    from i r d' d1 have "same d F" by simp
    with s have "map username (users D) = map username (users d)" by (simp add: same_def)
    from User_get_or_create_error(2) [OF goc [unfolded Inl] this]
    have "create_anonymous D = (Inl err, D)"
      by (simp add: create_anonymous_def bind_def)
    with s r show ?thesis by simp
  next
    case (Inr v)
    obtain j c where v: "v = (j, c)" by (cases v)
    from create_anonymous_result [OF goc [unfolded Inr v] run]
    have r: "r = Inr ()" and sd: "same d1 d'" by simp_all
    from sd e have "ext d1 F" by (rule same_ext)
    with s have "prefix (map username (users d1)) (map username (users D))"
      by (simp add: ext_def same_def)
    from User_get_or_create_again [OF goc [unfolded Inr v] this]
    show ?thesis
    proof
      assume 1: "User_get_or_create ''anonymous'' D = (Inr (j, False), D)"
      obtain r' D' where run': "create_anonymous D = (r', D')"
        by (cases "create_anonymous D")
      from create_anonymous_result [OF 1 run'] have "r' = Inr ()" and "same D D'" by simp_all
      with s have "same F D'" and "r' = r" using r by (auto intro: same_trans)
      with run' show ?thesis by simp
    next
      assume "User_get_or_create ''anonymous'' D = (Inl (MultipleObjectsReturned ''User''), D)"
      then have "create_anonymous D = (Inl (MultipleObjectsReturned ''User''), D)"
        by (simp add: create_anonymous_def bind_def)
      with s show ?thesis by simp
    qed
  qed
qed

lemma grows_import_prereq: "grows (import_prereq config)"
  unfolding import_prereq_def by (intro grows_intros)

lemma settled_import_prereq: "settled (import_prereq config)"
  unfolding import_prereq_def
  by (intro settled_bind settled_for_each settled_import_body settled_import_subject
      settled_import_target settled_import_geolevel_prereq settled_create_anonymous
      settled_return grows_intros)

lemma same_catalog_counts: "same F D \<Longrightarrow> catalog_counts F = catalog_counts D"
  unfolding same_def catalog_counts_def by (metis length_map)


lemma preservesD: "preserves f m \<Longrightarrow> m s = (r, s') \<Longrightarrow> f s' = f s"
  by (auto simp: preserves_def)

lemma preserves_return [preserves_intros]: "preserves f (return x)"
  by (simp add: preserves_def return_def)

lemma preserves_lift [preserves_intros]: "preserves f (lift r)"
  by (simp add: preserves_def lift_def)

lemma preserves_bind [preserves_intros]:
  assumes "preserves f m" and "\<And>x. preserves f (k x)"
  shows "preserves f (bind m k)"
  unfolding preserves_def
proof (intro allI impI)
  fix s r s'
  assume run: "bind m k s = (r, s')"
  obtain r1 s1 where m1: "m s = (r1, s1)" by (cases "m s")
  with assms(1) have e1: "f s1 = f s" by (auto dest: preservesD)
  show "f s' = f s"
  proof (cases r1)
    case (Inl err)
    with run m1 e1 show ?thesis by (auto simp: bind_def)
  next
    case (Inr x)
    with run m1 have "k x s1 = (r, s')" by (auto simp: bind_def)
    with assms(2) [of x] have "f s' = f s1" by (auto dest: preservesD)
    with e1 show ?thesis by simp
  qed
qed

lemma preserves_for_each [preserves_intros]:
  assumes "\<And>x. preserves f (k x)"
  shows "preserves f (for_each k xs)"
proof (induction xs)
  case Nil
  show ?case by (simp add: preserves_return)
next
  case (Cons x xs)
  show ?case by (simp, rule preserves_bind, rule assms, rule Cons.IH)
qed

lemma preserves_case_prod [preserves_intros]:
  "(\<And>a b. preserves f (k a b)) \<Longrightarrow> preserves f (case p of (a, b) \<Rightarrow> k a b)"
  by (cases p) simp

lemma preserves_if [preserves_intros]:
  "preserves f a \<Longrightarrow> preserves f b \<Longrightarrow> preserves f (if c then a else b)"
  by simp

lemma preserves_case_option [preserves_intros]:
  "preserves f a \<Longrightarrow> (\<And>x. preserves f (b x)) \<Longrightarrow>
   preserves f (case v of None \<Rightarrow> a | Some x \<Rightarrow> b x)"
  by (cases v) simp_all

lemma preserves_case_list [preserves_intros]:
  "preserves f a \<Longrightarrow> (\<And>x xs. preserves f (b x xs)) \<Longrightarrow>
   preserves f (case v of [] \<Rightarrow> a | x # xs \<Rightarrow> b x xs)"
  by (cases v) simp_all

lemma preserves_LegislativeBody_get_or_create [preserves_intros]:
  "(\<And>s rows. f (s\<lparr>legislative_bodies := rows\<rparr>) = f s) \<Longrightarrow>
   preserves f (LegislativeBody_get_or_create r)"
  by (auto simp: preserves_def LegislativeBody_get_or_create_def split: prod.splits)

lemma preserves_Subject_get_or_create [preserves_intros]:
  "(\<And>s rows. f (s\<lparr>subjects := rows\<rparr>) = f s) \<Longrightarrow> preserves f (Subject_get_or_create r)"
  by (auto simp: preserves_def Subject_get_or_create_def split: prod.splits)

lemma preserves_Target_get_or_create [preserves_intros]:
  "(\<And>s rows. f (s\<lparr>targets := rows\<rparr>) = f s) \<Longrightarrow> preserves f (Target_get_or_create r)"
  by (auto simp: preserves_def Target_get_or_create_def split: prod.splits)

lemma preserves_Geolevel_get_or_create [preserves_intros]:
  "(\<And>s rows. f (s\<lparr>geolevels := rows\<rparr>) = f s) \<Longrightarrow> preserves f (Geolevel_get_or_create r)"
  by (auto simp: preserves_def Geolevel_get_or_create_def split: prod.splits)

lemma preserves_LegislativeLevel_get_or_create [preserves_intros]:
  "(\<And>s rows. f (s\<lparr>legislative_levels := rows\<rparr>) = f s) \<Longrightarrow>
   preserves f (LegislativeLevel_get_or_create r)"
  by (auto simp: preserves_def LegislativeLevel_get_or_create_def split: prod.splits)

lemma preserves_LegislativeDefaults_get_or_create [preserves_intros]:
  "(\<And>s rows. f (s\<lparr>legislative_defaults := rows\<rparr>) = f s) \<Longrightarrow>
   preserves f (LegislativeDefaults_get_or_create b)"
  by (auto simp: preserves_def LegislativeDefaults_get_or_create_def split: prod.splits)

lemma preserves_LegislativeDefaults_set_target [preserves_intros]:
  "(\<And>s rows. f (s\<lparr>legislative_defaults := rows\<rparr>) = f s) \<Longrightarrow>
   preserves f (LegislativeDefaults_set_target i t)"
  by (auto simp: preserves_def LegislativeDefaults_set_target_def)

lemma preserves_User_get_or_create [preserves_intros]:
  "(\<And>s rows. f (s\<lparr>users := rows\<rparr>) = f s) \<Longrightarrow> preserves f (User_get_or_create n)"
  by (auto simp: preserves_def User_get_or_create_def split: prod.splits)

lemma preserves_User_set_password [preserves_intros]:
  "(\<And>s rows. f (s\<lparr>users := rows\<rparr>) = f s) \<Longrightarrow> preserves f (User_set_password i p)"
  by (auto simp: preserves_def User_set_password_def)

lemma preserves_LegislativeBody_get [preserves_intros]: "preserves f (LegislativeBody_get n)"
  by (simp add: preserves_def LegislativeBody_get_def)

lemma preserves_Subject_get [preserves_intros]: "preserves f (Subject_get n)"
  by (simp add: preserves_def Subject_get_def)

lemma preserves_Subject_filter_first [preserves_intros]: "preserves f (Subject_filter_first n)"
  by (simp add: preserves_def Subject_filter_first_def)

lemma preserves_Target_get [preserves_intros]: "preserves f (Target_get r)"
  by (simp add: preserves_def Target_get_def)

lemma preserves_Geolevel_get [preserves_intros]: "preserves f (Geolevel_get n)"
  by (simp add: preserves_def Geolevel_get_def)

lemma preserves_LegislativeLevel_get [preserves_intros]: "preserves f (LegislativeLevel_get b g t)"
  by (simp add: preserves_def LegislativeLevel_get_def)

lemma preserves_users_import_body: "preserves users (import_body b)"
  unfolding import_body_def by (intro preserves_intros) simp

lemma preserves_users_import_subject: "preserves users (import_subject b)"
  unfolding import_subject_def by (intro preserves_intros) simp

lemma preserves_users_import_target: "preserves users (import_target c t)"
  unfolding import_target_def by (intro preserves_intros) simp

lemma preserves_users_import_geolevel_prereq: "preserves users (import_geolevel_prereq c g)"
  unfolding import_geolevel_prereq_def import_legislative_body_ref_def
    import_legislative_target_def
  by (intro preserves_intros) simp_all

lemmas run_simps =
  import_prereq_def import_body_def import_subject_def import_target_def
  import_geolevel_prereq_def import_legislative_body_ref_def import_legislative_target_def
  create_anonymous_def bind_def return_def lift_def xpath_first_def
  Subject_by_id_def Target_by_id_def LegislativeBody_by_id_def GeoLevel_by_id_def
  LegislativeBody_get_or_create_def Subject_get_or_create_def Target_get_or_create_def
  Geolevel_get_or_create_def LegislativeLevel_get_or_create_def
  LegislativeDefaults_get_or_create_def LegislativeDefaults_set_target_def
  User_get_or_create_def User_set_password_def LegislativeBody_get_def Subject_get_def
  Subject_filter_first_def Target_get_def Geolevel_get_def LegislativeLevel_get_def
  get_or_create_def objects_get_def objects_filter_first_def matching_def

lemma example_run:
  "import_prereq example_config (initial_state :: 'g state) =
     (Inr True,
      \<lparr>legislative_bodies = [\<lparr>lb_name = Some ''House'', lb_member = Some ''Rep %d'',
                               lb_max_districts = Some ''5''\<rparr>],
       subjects = [\<lparr>sj_name = ''poptot'', sj_display = Some ''Total Population'',
                    sj_short_display = Some ''Pop'', sj_is_displayed = True,
                    sj_sort_key = Some ''1''\<rparr>],
       targets = [\<lparr>tg_subject = 0, tg_value = Some ''1000'', tg_range1 = Some ''900'',
                   tg_range2 = Some ''1100''\<rparr>],
       geolevels = [\<lparr>gl_name = Some ''county'', gl_min_zoom = Some ''0'', gl_sort_key = Some ''1''\<rparr>,
                    \<lparr>gl_name = Some ''block'', gl_min_zoom = Some ''8'', gl_sort_key = Some ''2''\<rparr>],
       legislative_defaults = [\<lparr>ld_legislative_body = 0, ld_target = Some 0\<rparr>],
       legislative_levels =
         [\<lparr>ll_legislative_body = 0, ll_geolevel = 0, ll_target = 0, ll_parent = None\<rparr>,
          \<lparr>ll_legislative_body = 0, ll_geolevel = Suc 0, ll_target = 0, ll_parent = Some 0\<rparr>],
       users = [\<lparr>username = ''anonymous'', password = None\<rparr>], geounits = [],
       characteristics = [], printed = [], nested = []\<rparr>)"
  by (simp add: example_config_def initial_state_def run_simps)

lemma bind_success:
  assumes "bind m k s = (Inr y, s')"
  obtains x s1 where "m s = (Inr x, s1)" and "k x s1 = (Inr y, s')"
  using assms by (auto simp: bind_def split: prod.splits sum.splits)

lemma matching_empty_iff: "matching P rows = [] \<longleftrightarrow> (\<forall>x \<in> set rows. \<not> P x)"
  unfolding matching_def by (auto simp: filter_empty_conv in_set_conv_nth) (metis nth_mem)

lemma matching_member: "i \<in> set (matching P rows) \<longleftrightarrow> i < length rows \<and> P (rows ! i)"
  unfolding matching_def by auto

lemma objects_get_Inr:
  assumes "objects_get m P rows = Inr i"
  shows "i < length rows" and "P (rows ! i)"
    and "\<And>j. j < length rows \<Longrightarrow> P (rows ! j) \<Longrightarrow> j = i"
proof -
  from assms have mi: "matching P rows = [i]"
    by (auto simp: objects_get_def split: list.splits)
  then have "i \<in> set (matching P rows)" by simp
  then show "i < length rows" and "P (rows ! i)" by (simp_all add: matching_member)
  fix j assume "j < length rows" and "P (rows ! j)"
  then have "j \<in> set (matching P rows)" by (simp add: matching_member)
  with mi show "j = i" by simp
qed

lemma objects_get_DoesNotExist:
  "objects_get m P rows = Inl (DoesNotExist m') \<longleftrightarrow> m' = m \<and> (\<forall>x \<in> set rows. \<not> P x)"
  by (auto simp: objects_get_def matching_empty_iff [symmetric] split: list.splits)

lemma objects_get_none: "\<forall>x \<in> set rows. \<not> P x \<Longrightarrow> objects_get m P rows = Inl (DoesNotExist m)"
  by (simp add: objects_get_DoesNotExist)

lemma create_anonymous_users:
  assumes "create_anonymous s = (Inr u, s')"
  shows "if \<forall>x \<in> set (users s). username x \<noteq> ''anonymous''
         then users s' = users s @ [\<lparr>username = ''anonymous'', password = None\<rparr>]
         else \<exists>i < length (users s). username (users s ! i) = ''anonymous'' \<and>
                users s' = (users s)[i := (users s ! i)\<lparr>password := Some ''anonymous''\<rparr>]"
proof (cases "objects_get ''User'' (\<lambda>x. username x = ''anonymous'') (users s)")
  case (Inl e)
  with assms obtain m' where e: "e = DoesNotExist m'"
    and s': "users s' = users s @ [\<lparr>username = ''anonymous'', password = None\<rparr>]"
    by (auto simp: create_anonymous_def bind_def User_get_or_create_def get_or_create_def
        return_def split: error.splits)
  from Inl e have "\<forall>x \<in> set (users s). username x \<noteq> ''anonymous''"
    by (simp add: objects_get_DoesNotExist)
  with s' show ?thesis by simp
next
  case (Inr i)
  with assms have s': "users s' = (users s)[i := (users s ! i)\<lparr>password := Some ''anonymous''\<rparr>]"
    by (auto simp: create_anonymous_def bind_def User_get_or_create_def get_or_create_def
        User_set_password_def)
  from objects_get_Inr(1,2) [OF Inr] have i: "i < length (users s)"
    and n: "username (users s ! i) = ''anonymous''" .
  then have "\<not> (\<forall>x \<in> set (users s). username x \<noteq> ''anonymous'')"
    using nth_mem by blast
  with i n s' show ?thesis by auto
qed

lemma preserves_users_catalog:
  "preserves users (bind (for_each import_body (cf_bodies config)) (\<lambda>_.
     bind (for_each import_subject (cf_subjects config)) (\<lambda>_.
     bind (for_each (import_target config) (cf_targets config)) (\<lambda>_.
     for_each (import_geolevel_prereq config) (cf_geolevels config)))))"
  by (intro preserves_bind preserves_for_each preserves_users_import_body
      preserves_users_import_subject preserves_users_import_target
      preserves_users_import_geolevel_prereq)

lemma bind_assoc: "bind (bind m f) g = bind m (\<lambda>x. bind (f x) g)"
  by (rule ext) (auto simp: bind_def split: prod.splits sum.splits)

lemma import_prereq_split:
  "import_prereq config =
     bind (bind (for_each import_body (cf_bodies config)) (\<lambda>_.
           bind (for_each import_subject (cf_subjects config)) (\<lambda>_.
           bind (for_each (import_target config) (cf_targets config)) (\<lambda>_.
           for_each (import_geolevel_prereq config) (cf_geolevels config)))))
       (\<lambda>_. bind create_anonymous (\<lambda>_. return True))"
  by (simp add: import_prereq_def bind_assoc)

lemma bind_fails:
  assumes "\<And>x s1. m s = (Inr x, s1) \<Longrightarrow> isl (fst (k x s1))"
  shows "isl (fst (bind m k s))"
proof (cases "m s")
  case (Pair r s1)
  then show ?thesis using assms by (cases r) (auto simp: bind_def)
qed

lemma for_each_fails:
  assumes inv: "\<And>y s r s'. y \<in> set before \<Longrightarrow> I s \<Longrightarrow> f y s = (r, s') \<Longrightarrow> I s'"
    and fail: "\<And>s. I s \<Longrightarrow> isl (fst (f x s))"
    and "I s"
  shows "isl (fst (for_each f (before @ x # after) s))"
  using inv \<open>I s\<close>
proof (induction before arbitrary: s)
  case Nil
  obtain r s1 where "f x s = (r, s1)" by (cases "f x s")
  with fail [OF Nil.prems(2)] show ?case by (cases r) (auto simp: bind_def)
next
  case (Cons y ys)
  show ?case
    unfolding append_Cons for_each.simps
  proof (rule bind_fails)
    fix u s1 assume "f y s = (Inr u, s1)"
    with Cons.prems have I1: "I s1" by auto
    show "isl (fst (for_each f (ys @ x # after) s1))"
    proof (rule Cons.IH)
      show "I s1" by (rule I1)
    next
      fix z st r st'
      assume "z \<in> set ys" and "I st" and "f z st = (r, st')"
      then show "I st'" using Cons.prems(1) [of z st r st'] by simp
    qed
  qed
qed

lemma preserves_geolevels_target_step:
  "preserves geolevels (import_legislative_target config glvl lbody b targ)"
  unfolding import_legislative_target_def by (intro preserves_intros) simp_all

lemma preserves_geolevels_body_ref:
  "preserves geolevels (import_legislative_body_ref config glvl lbody)"
  unfolding import_legislative_body_ref_def
  by (intro preserves_intros preserves_geolevels_target_step)

lemma preserves_geolevels_import_body: "preserves geolevels (import_body b)"
  unfolding import_body_def by (intro preserves_intros) simp

lemma preserves_geolevels_import_subject: "preserves geolevels (import_subject b)"
  unfolding import_subject_def by (intro preserves_intros) simp

lemma preserves_geolevels_import_target: "preserves geolevels (import_target c t)"
  unfolding import_target_def by (intro preserves_intros) simp

lemma no_geolevel_named_frame:
  "preserves geolevels m \<Longrightarrow> m s = (r, s') \<Longrightarrow> no_geolevel_named n s \<Longrightarrow> no_geolevel_named n s'"
proof -
  assume "preserves geolevels m" and "m s = (r, s')"
  then have "geolevels s' = geolevels s" by (rule preservesD)
  moreover assume "no_geolevel_named n s"
  ultimately show "no_geolevel_named n s'" by (simp add: no_geolevel_named_def)
qed

lemma Geolevel_get_missing:
  "no_geolevel_named n s \<Longrightarrow> Geolevel_get n s = (Inl (DoesNotExist ''Geolevel''), s)"
  by (simp add: Geolevel_get_def no_geolevel_named_def objects_get_none)

lemma target_step_fails:
  assumes p: "lbr_parent lbody = pref # prefs"
    and pc: "GeoLevel_by_id config pref = pconfig # others"
    and I: "no_geolevel_named (gc_name pconfig) s"
  shows "isl (fst (import_legislative_target config glvl lbody b targ s))"
  unfolding import_legislative_target_def
proof (intro bind_fails)
  fix tconfig s1 sconfig s2 sconfig' s3 subject s4 target s5 u s6 parent s7 v s8
  assume "lift (xpath_first (Target_by_id config (ltr_ref targ))) s = (Inr tconfig, s1)"
  then have 1: "s1 = s" by (simp add: lift_def)
  assume "lift (xpath_first (Subject_by_id config (tc_subjectref tconfig))) s1 = (Inr sconfig, s2)"
  then have 2: "s2 = s1" by (simp add: lift_def)
  assume "(case sc_aliasfor sconfig of None \<Rightarrow> return sconfig
           | Some a \<Rightarrow> lift (xpath_first (Subject_by_id config a))) s2 = (Inr sconfig', s3)"
  then have 3: "s3 = s2" by (auto simp: lift_def return_def split: option.splits)
  assume "Subject_get (sc_id sconfig') s3 = (Inr subject, s4)"
  then have 4: "s4 = s3" by (simp add: Subject_get_def)
  assume "Target_get \<lparr>tg_subject = subject, tg_value = tc_value tconfig,
            tg_range1 = tc_range1 tconfig, tg_range2 = tc_range2 tconfig\<rparr> s4 = (Inr target, s5)"
  then have 5: "s5 = s4" by (simp add: Target_get_def)
  assume d: "(if ltr_default targ \<noteq> None
       then bind (LegislativeDefaults_get_or_create b)
              (\<lambda>(obj, created). LegislativeDefaults_set_target obj target)
       else return ()) s5 = (Inr u, s6)"
  have "preserves geolevels (if ltr_default targ \<noteq> None
       then bind (LegislativeDefaults_get_or_create b)
              (\<lambda>(obj, created). LegislativeDefaults_set_target obj target)
       else return ())"
    by (intro preserves_intros) simp_all
  from no_geolevel_named_frame [OF this d] I 1 2 3 4 5
  have I6: "no_geolevel_named (gc_name pconfig) s6" by simp
  assume "(case lbr_parent lbody of [] \<Rightarrow> return None
         | pref # x \<Rightarrow>
             bind (lift (xpath_first (GeoLevel_by_id config pref)))
              (\<lambda>pconfig. bind (Geolevel_get (gc_name pconfig))
                 (\<lambda>plvl. bind (LegislativeLevel_get b plvl target)
                    (\<lambda>parent. return (Some parent))))) s6 = (Inr parent, s7)"
  then have False
    by (simp add: p pc bind_def lift_def xpath_first_def Geolevel_get_missing [OF I6])
  then show "isl (fst (return () s8))" ..
qed

lemma body_ref_fails:
  assumes p: "lbr_parent lbody = pref # prefs"
    and t: "lbr_targets lbody \<noteq> []"
    and pc: "GeoLevel_by_id config pref = pconfig # others"
    and I: "no_geolevel_named (gc_name pconfig) s"
  shows "isl (fst (import_legislative_body_ref config glvl lbody s))"
  unfolding import_legislative_body_ref_def
proof (intro bind_fails)
  fix lbconfig s1 b s2
  assume "lift (xpath_first (LegislativeBody_by_id config (lbr_ref lbody))) s = (Inr lbconfig, s1)"
  then have 1: "s1 = s" by (simp add: lift_def)
  assume "LegislativeBody_get (bc_name lbconfig) s1 = (Inr b, s2)"
  then have 2: "s2 = s1" by (simp add: LegislativeBody_get_def)
  from t obtain targ rest where ts: "lbr_targets lbody = [] @ targ # rest"
    by (cases "lbr_targets lbody") auto
  show "isl (fst (for_each (import_legislative_target config glvl lbody b) (lbr_targets lbody) s2))"
    unfolding ts
  proof (rule for_each_fails [where I = "no_geolevel_named (gc_name pconfig)"])
    show "no_geolevel_named (gc_name pconfig) s2" using I 1 2 by simp
  next
    fix st assume "no_geolevel_named (gc_name pconfig) st"
    with p pc show "isl (fst (import_legislative_target config glvl lbody b targ st))"
      by (rule target_step_fails)
  qed simp
qed

lemma geolevel_prereq_fails:
  assumes lb: "lbody \<in> set (gc_lbodies g)"
    and p: "lbr_parent lbody = pref # prefs"
    and t: "lbr_targets lbody \<noteq> []"
    and pc: "GeoLevel_by_id config pref = pconfig # others"
    and n: "gc_name g \<noteq> gc_name pconfig"
    and I: "no_geolevel_named (gc_name pconfig) s"
  shows "isl (fst (import_geolevel_prereq config g s))"
  unfolding import_geolevel_prereq_def
proof (rule bind_fails)
  fix x s1
  assume goc: "Geolevel_get_or_create \<lparr>gl_name = gc_name g, gl_min_zoom = gc_min_zoom g,
      gl_sort_key = gc_sort_key g\<rparr> s = (Inr x, s1)"
  obtain glvl created where x: "x = (glvl, created)" by (cases x)
  from goc I n have I1: "no_geolevel_named (gc_name pconfig) s1"
    by (auto simp: Geolevel_get_or_create_def get_or_create_def no_geolevel_named_def
        split: sum.splits error.splits)
  from lb obtain ys zs where split: "gc_lbodies g = ys @ lbody # zs"
    by (auto dest: split_list)
  have "isl (fst (for_each (import_legislative_body_ref config glvl) (gc_lbodies g) s1))"
    unfolding split
  proof (rule for_each_fails [where I = "no_geolevel_named (gc_name pconfig)"])
    show "no_geolevel_named (gc_name pconfig) s1" by (rule I1)
  next
    fix st assume "no_geolevel_named (gc_name pconfig) st"
    with p t pc show "isl (fst (import_legislative_body_ref config glvl lbody st))"
      by (rule body_ref_fails)
  next
    fix y st r st'
    assume "import_legislative_body_ref config glvl y st = (r, st')"
      and "no_geolevel_named (gc_name pconfig) st"
    with preserves_geolevels_body_ref show "no_geolevel_named (gc_name pconfig) st'"
      by (rule no_geolevel_named_frame)
  qed
  then show "isl (fst ((case x of (glvl, created) \<Rightarrow>
      for_each (import_legislative_body_ref config glvl) (gc_lbodies g)) s1))"
    by (simp add: x)
qed

lemma geolevel_prereq_keeps:
  assumes "import_geolevel_prereq config g s = (r, s')"
    and "gc_name g \<noteq> n" and "no_geolevel_named n s"
  shows "no_geolevel_named n s'"
proof -
  obtain x s1 where goc: "Geolevel_get_or_create \<lparr>gl_name = gc_name g,
      gl_min_zoom = gc_min_zoom g, gl_sort_key = gc_sort_key g\<rparr> s = (x, s1)"
    by (cases "Geolevel_get_or_create \<lparr>gl_name = gc_name g,
      gl_min_zoom = gc_min_zoom g, gl_sort_key = gc_sort_key g\<rparr> s")
  with assms(2,3) have I1: "no_geolevel_named n s1"
    by (auto simp: Geolevel_get_or_create_def get_or_create_def no_geolevel_named_def
        split: sum.splits error.splits)
  show ?thesis
  proof (cases x)
    case (Inl e)
    with assms(1) goc I1 show ?thesis by (simp add: import_geolevel_prereq_def bind_def)
  next
    case (Inr v)
    obtain glvl created where v: "v = (glvl, created)" by (cases v)
    from assms(1) goc Inr v
    have "for_each (import_legislative_body_ref config glvl) (gc_lbodies g) s1 = (r, s')"
      by (simp add: import_geolevel_prereq_def bind_def)
    from no_geolevel_named_frame [OF preserves_for_each this I1] preserves_geolevels_body_ref
    show ?thesis by blast
  qed
qed

lemma bind_return: "bind m return = m"
  by (rule ext) (auto simp: bind_def return_def split: prod.splits sum.splits)

lemma return_bind: "bind (return x) k = k x"
  by (rule ext) (simp add: bind_def return_def)

lemma import_legislative_target_split:
  "import_legislative_target config glvl lbody b targ =
     bind (level_prelude config lbody b targ) (\<lambda>(target, parent).
     bind (LegislativeLevel_get_or_create
             \<lparr>ll_legislative_body = b, ll_geolevel = glvl,
              ll_target = target, ll_parent = parent\<rparr>)
          (\<lambda>_. return ()))"
  by (simp add: import_legislative_target_def level_prelude_def level_front_def
      find_parent_def bind_assoc return_bind)

lemma preserves_levels_prelude:
  "preserves legislative_levels (level_prelude config lbody b targ)"
  unfolding level_prelude_def level_front_def find_parent_def
  by (intro preserves_intros) simp_all

lemma preserves_geolevels_prelude:
  "preserves geolevels (level_prelude config lbody b targ)"
  unfolding level_prelude_def level_front_def find_parent_def
  by (intro preserves_intros) simp_all

lemma bind_cases:
  assumes "bind m k s = (r, s')"
  obtains (fail) e where "m s = (Inl e, s')" and "r = Inl e"
    | (go) x s1 where "m s = (Inr x, s1)" and "k x s1 = (r, s')"
  using assms by (auto simp: bind_def split: prod.splits sum.splits)

lemma parent_lookup_found:
  assumes "bind (lift (xpath_first (GeoLevel_by_id config pref))) (\<lambda>pconfig.
               bind (Geolevel_get (gc_name pconfig)) (\<lambda>plvl.
               bind (LegislativeLevel_get b plvl target) (\<lambda>parent.
               return (Some parent)))) s = (Inr parent, s')"
  shows "\<exists>p pconfig others. parent = Some p \<and> s' = s \<and> p < length (legislative_levels s) \<and>
           ll_legislative_body (legislative_levels s ! p) = b \<and>
           ll_target (legislative_levels s ! p) = target \<and>
           GeoLevel_by_id config pref = pconfig # others \<and>
           ll_geolevel (legislative_levels s ! p) < length (geolevels s) \<and>
           gl_name (geolevels s ! ll_geolevel (legislative_levels s ! p)) = gc_name pconfig"
proof -
  from assms obtain pconfig s1 where a: "lift (xpath_first (GeoLevel_by_id config pref)) s = (Inr pconfig, s1)"
    and r1: "bind (Geolevel_get (gc_name pconfig)) (\<lambda>plvl.
               bind (LegislativeLevel_get b plvl target) (\<lambda>parent.
               return (Some parent))) s1 = (Inr parent, s')"
    by (rule bind_success)
  from a have s1: "s1 = s" and pc: "xpath_first (GeoLevel_by_id config pref) = Inr pconfig"
    by (simp_all add: lift_def)
  from pc obtain others where g: "GeoLevel_by_id config pref = pconfig # others"
    by (auto simp: xpath_first_def split: list.splits)
  from r1 obtain plvl s2 where b: "Geolevel_get (gc_name pconfig) s1 = (Inr plvl, s2)"
    and r2: "bind (LegislativeLevel_get b plvl target) (\<lambda>parent. return (Some parent)) s2
        = (Inr parent, s')"
    by (rule bind_success)
  from b have s2: "s2 = s1"
    and og: "objects_get ''Geolevel'' (\<lambda>x. gl_name x = gc_name pconfig) (geolevels s1) = Inr plvl"
    by (auto simp: Geolevel_get_def)
  from r2 obtain p s3 where c: "LegislativeLevel_get b plvl target s2 = (Inr p, s3)"
    and r3: "return (Some p) s3 = (Inr parent, s')"
    by (rule bind_success)
  from c have s3: "s3 = s2"
    and ol: "objects_get ''LegislativeLevel''
        (\<lambda>x. ll_legislative_body x = b \<and> ll_geolevel x = plvl \<and> ll_target x = target)
        (legislative_levels s2) = Inr p"
    by (auto simp: LegislativeLevel_get_def)
  from r3 have par: "parent = Some p" and s': "s' = s3" by (simp_all add: return_def)
  from objects_get_Inr(1,2) [OF og] objects_get_Inr(1,2) [OF ol] par s' s3 s2 s1 g
  show ?thesis by auto
qed

lemma level_prelude_parent:
  assumes p: "lbr_parent lbody = pref # prefs"
    and run: "level_prelude config lbody b targ s = (Inr (target, parent), s')"
  shows "\<exists>p pconfig others. parent = Some p \<and> p < length (legislative_levels s) \<and>
           ll_legislative_body (legislative_levels s ! p) = b \<and>
           ll_target (legislative_levels s ! p) = target \<and>
           GeoLevel_by_id config pref = pconfig # others \<and>
           ll_geolevel (legislative_levels s ! p) < length (geolevels s) \<and>
           gl_name (geolevels s ! ll_geolevel (legislative_levels s ! p)) = gc_name pconfig"
proof -
  from run obtain t s1 where f: "level_front config b targ s = (Inr t, s1)"
    and r1: "bind (find_parent config lbody b t) (\<lambda>parent. return (t, parent)) s1
       = (Inr (target, parent), s')"
    unfolding level_prelude_def by (rule bind_success)
  from r1 obtain par s2 where fp: "find_parent config lbody b t s1 = (Inr par, s2)"
    and ret: "return (t, par) s2 = (Inr (target, parent), s')"
    by (rule bind_success)
  from ret have eq: "t = target" "par = parent" by (simp_all add: return_def)
  have "preserves legislative_levels (level_front config b targ)"
    unfolding level_front_def by (intro preserves_intros) simp_all
  from preservesD [OF this f] have l1: "legislative_levels s1 = legislative_levels s" .
  have "preserves geolevels (level_front config b targ)"
    unfolding level_front_def by (intro preserves_intros) simp_all
  from preservesD [OF this f] have g1: "geolevels s1 = geolevels s" .
  from fp have "bind (lift (xpath_first (GeoLevel_by_id config pref))) (\<lambda>pconfig.
               bind (Geolevel_get (gc_name pconfig)) (\<lambda>plvl.
               bind (LegislativeLevel_get b plvl t) (\<lambda>parent.
               return (Some parent)))) s1 = (Inr par, s2)"
    by (simp add: find_parent_def p)
  from parent_lookup_found [OF this] l1 g1 eq show ?thesis by auto
qed

lemma goc_level_row:
  assumes "LegislativeLevel_get_or_create r s = (Inr x, s')"
  shows "r \<in> set (legislative_levels s')"
proof -
  obtain i c where x: "x = (i, c)" by (cases x)
  obtain res rows where g: "get_or_create ''LegislativeLevel'' (\<lambda>y. y = r) r (legislative_levels s) = (res, rows)"
    by (cases "get_or_create ''LegislativeLevel'' (\<lambda>y. y = r) r (legislative_levels s)")
  with assms x have res: "res = Inr (i, c)" and s': "legislative_levels s' = rows"
    by (auto simp: LegislativeLevel_get_or_create_def)
  from get_or_create_found [OF refl g [unfolded res]]
  have "objects_get ''LegislativeLevel'' (\<lambda>y. y = r) rows = Inr i" .
  from objects_get_Inr(1,2) [OF this] show ?thesis unfolding s' by (metis nth_mem)
qed

lemma goc_level_error:
  assumes "LegislativeLevel_get_or_create r s = (Inl e, s')"
  shows "legislative_levels s' = legislative_levels s"
  using assms
  by (auto simp: LegislativeLevel_get_or_create_def split: prod.splits dest: get_or_create_error)

lemma target_step_level:
  assumes p: "lbr_parent lbody = pref # prefs"
    and run: "import_legislative_target config glvl lbody b targ s = (r, s')"
  shows "case r of
           Inl e \<Rightarrow> legislative_levels s' = legislative_levels s
         | Inr u \<Rightarrow>
             (\<exists>p t pconfig others. p < length (legislative_levels s) \<and>
                ll_legislative_body (legislative_levels s ! p) = b \<and>
                ll_target (legislative_levels s ! p) = t \<and>
                GeoLevel_by_id config pref = pconfig # others \<and>
                ll_geolevel (legislative_levels s ! p) < length (geolevels s) \<and>
                gl_name (geolevels s ! ll_geolevel (legislative_levels s ! p)) = gc_name pconfig \<and>
                \<lparr>ll_legislative_body = b, ll_geolevel = glvl, ll_target = t, ll_parent = Some p\<rparr>
                  \<in> set (legislative_levels s'))"
  using run [unfolded import_legislative_target_split]
proof (cases rule: bind_cases)
  case (fail e)
  from preservesD [OF preserves_levels_prelude fail(1)]
  have "legislative_levels s' = legislative_levels s" .
  then show ?thesis unfolding fail(2) by simp
next
  case (go x s1)
  obtain target parent where x: "x = (target, parent)" by (cases x)
  from preservesD [OF preserves_levels_prelude go(1)]
  have l1: "legislative_levels s1 = legislative_levels s" .
  from level_prelude_parent [OF p go(1) [unfolded x]]
  obtain q pconfig others where par: "parent = Some q" and q: "q < length (legislative_levels s)"
    "ll_legislative_body (legislative_levels s ! q) = b"
    "ll_target (legislative_levels s ! q) = target"
    "GeoLevel_by_id config pref = pconfig # others"
    "ll_geolevel (legislative_levels s ! q) < length (geolevels s)"
    "gl_name (geolevels s ! ll_geolevel (legislative_levels s ! q)) = gc_name pconfig"
    by (elim exE conjE)
  from go(2) x have "bind (LegislativeLevel_get_or_create
             \<lparr>ll_legislative_body = b, ll_geolevel = glvl,
              ll_target = target, ll_parent = parent\<rparr>)
          (\<lambda>_. return ()) s1 = (r, s')" by simp
  then show ?thesis
  proof (cases rule: bind_cases)
    case (fail e)
    from goc_level_error [OF fail(1)] l1
    have "legislative_levels s' = legislative_levels s" by simp
    then show ?thesis unfolding fail(2) by simp
  next
    case (go y s2)
    then have r: "r = Inr ()" and s2: "s2 = s'" by (simp_all add: return_def)
    from goc_level_row [OF go(1)] par s2
    have row: "\<lparr>ll_legislative_body = b, ll_geolevel = glvl, ll_target = target,
                ll_parent = Some q\<rparr> \<in> set (legislative_levels s')" by simp
    show ?thesis
      unfolding r sum.case
      by (intro exI [of _ q] exI [of _ target] exI [of _ pconfig] exI [of _ others] conjI q row)
  qed
qed

lemma bind_fails_first: "isl (fst (m s)) \<Longrightarrow> isl (fst (bind m k s))"
  by (cases "m s") (auto simp: bind_def split: sum.splits)

lemma isl_fstE:
  assumes "isl (fst (m s))"
  obtains e s' where "m s = (Inl e, s')"
  using assms by (cases "m s") (auto simp: isl_def)

lemma import_prereq_fails:
  assumes gl: "cf_geolevels config = before @ g # after"
    and lb: "lbody \<in> set (gc_lbodies g)"
    and p: "lbr_parent lbody = pref # prefs"
    and t: "lbr_targets lbody \<noteq> []"
    and pc: "GeoLevel_by_id config pref = pconfig # others"
    and later: "\<forall>y \<in> set (before @ [g]). gc_name y \<noteq> gc_name pconfig"
    and fresh: "\<forall>x \<in> set (geolevels s). gl_name x \<noteq> gc_name pconfig"
  shows "isl (fst (import_prereq config s))"
  unfolding import_prereq_def
proof (rule bind_fails, rule bind_fails, rule bind_fails, rule bind_fails_first)
  fix u1 s1 u2 s2 u3 s3
  assume 1: "for_each import_body (cf_bodies config) s = (Inr u1, s1)"
    and 2: "for_each import_subject (cf_subjects config) s1 = (Inr u2, s2)"
    and 3: "for_each (import_target config) (cf_targets config) s2 = (Inr u3, s3)"
  from fresh have "no_geolevel_named (gc_name pconfig) s" by (simp add: no_geolevel_named_def)
  from no_geolevel_named_frame [OF preserves_for_each 1 this] preserves_geolevels_import_body
  have "no_geolevel_named (gc_name pconfig) s1" by blast
  from no_geolevel_named_frame [OF preserves_for_each 2 this] preserves_geolevels_import_subject
  have "no_geolevel_named (gc_name pconfig) s2" by blast
  from no_geolevel_named_frame [OF preserves_for_each 3 this] preserves_geolevels_import_target
  have I3: "no_geolevel_named (gc_name pconfig) s3" by blast
  show "isl (fst (for_each (import_geolevel_prereq config) (cf_geolevels config) s3))"
    unfolding gl
  proof (rule for_each_fails [where I = "no_geolevel_named (gc_name pconfig)"])
    show "no_geolevel_named (gc_name pconfig) s3" by (rule I3)
  next
    fix st assume I: "no_geolevel_named (gc_name pconfig) st"
    from later have "gc_name g \<noteq> gc_name pconfig" by simp
    from geolevel_prereq_fails [OF lb p t pc this I]
    show "isl (fst (import_geolevel_prereq config g st))" .
  next
    fix y st r st'
    assume y: "y \<in> set before" and I: "no_geolevel_named (gc_name pconfig) st"
      and run: "import_geolevel_prereq config y st = (r, st')"
    from later y have "gc_name y \<noteq> gc_name pconfig" by simp
    from geolevel_prereq_keeps [OF run this I]
    show "no_geolevel_named (gc_name pconfig) st'" .
  qed
qed

lemma misordered_run:
  "fst (import_prereq misordered_config (initial_state :: 'g state))
     = Inl (DoesNotExist ''Geolevel'')"
  by (simp add: misordered_config_def example_config_def initial_state_def run_simps)


section \<open>Claim C8: hierarchy reconciliation is idempotent\<close>

text \<open>
  C8.  Running \<^verbatim>\<open>import_prereq\<close> a second time, on the same configuration and from
  the state that the first run has left (whether that run ended or raised), creates no
  further row of \<^verbatim>\<open>LegislativeBody\<close>, \<^verbatim>\<open>Subject\<close>, \<^verbatim>\<open>Target\<close>, \<^verbatim>\<open>Geolevel\<close>,
  \<^verbatim>\<open>LegislativeLevel\<close> and \<^verbatim>\<open>LegislativeDefaults\<close>: the numbers of rows after the second
  run are those after the first.
\<close>

theorem import_prereq_idempotent:
  "catalog_counts (snd (import_prereq config (snd (import_prereq config s))))
     = catalog_counts (snd (import_prereq config s))"
proof -
  obtain r d' where run: "import_prereq config s = (r, d')"
    by (cases "import_prereq config s")
  from settled_import_prereq [of config, unfolded settled_def, rule_format, of s r d' d' d'] run
  obtain r' D' where "import_prereq config d' = (r', D')" and "same d' D'"
    by auto
  then show ?thesis using run by (simp add: same_catalog_counts)
qed

section \<open>Claim C10: the password of the user \<^verbatim>\<open>anonymous\<close>\<close>

text \<open>
  C10.  Whenever \<^verbatim>\<open>import_prereq\<close> ends without an exception: if no user was named
  \<^verbatim>\<open>anonymous\<close> before (the first run), the run adds that user and sets no password; if
  the user was there already (every later run), the run sets its password to the text
  \<^verbatim>\<open>anonymous\<close>.
\<close>

theorem anonymous_password:
  assumes "import_prereq config s = (Inr b, s')"
  shows "if \<forall>x \<in> set (users s). username x \<noteq> ''anonymous''
         then users s' = users s @ [\<lparr>username = ''anonymous'', password = None\<rparr>]
         else \<exists>i < length (users s). username (users s ! i) = ''anonymous'' \<and>
                users s' = (users s)[i := (users s ! i)\<lparr>password := Some ''anonymous''\<rparr>]"
proof -
  from assms [unfolded import_prereq_split]
  obtain x s1 where cat: "bind (for_each import_body (cf_bodies config)) (\<lambda>_.
           bind (for_each import_subject (cf_subjects config)) (\<lambda>_.
           bind (for_each (import_target config) (cf_targets config)) (\<lambda>_.
           for_each (import_geolevel_prereq config) (cf_geolevels config)))) s = (Inr x, s1)"
    and rest: "bind create_anonymous (\<lambda>_. return True) s1 = (Inr b, s')"
    by (rule bind_success)
  from rest obtain u s2 where anon: "create_anonymous s1 = (Inr u, s2)"
    and "return True s2 = (Inr b, s')"
    by (rule bind_success)
  then have s2: "s2 = s'" by (simp add: return_def)
  from preservesD [OF preserves_users_catalog cat] have "users s1 = users s" .
  with create_anonymous_users [OF anon] show ?thesis
    unfolding s2 by (simp only:)
qed

theorem anonymous_password_witness:
  "import_prereq example_config (initial_state :: unit state)
     = (Inr True, snd (import_prereq example_config initial_state))
   \<and> users (snd (import_prereq example_config (initial_state :: unit state)))
     = [\<lparr>username = ''anonymous'', password = None\<rparr>]"
  using anonymous_password [of example_config "initial_state :: unit state" True
      "snd (import_prereq example_config initial_state)"]
  by (simp add: example_run)

section \<open>Claim C6: a parent level that has not been made yet\<close>

text \<open>
  C6.  Let a geolevel \<open>g\<close> of the configuration hold a body element \<open>lbody\<close> with a
  \<^verbatim>\<open>Parent\<close> and at least one target, let the parent geolevel be declared after \<open>g\<close> (no
  geolevel up to \<open>g\<close> has its name), and let the database hold no geolevel of that name
  yet.  Then \<^verbatim>\<open>import_prereq\<close> raises.  Moreover, in whatever state the step for a
  target of \<open>lbody\<close> runs, it either raises and leaves the \<^verbatim>\<open>LegislativeLevel\<close> table as
  it was, or the level it settles on has as its parent a level that was already there, of
  the same body and target, at the geolevel that \<^verbatim>\<open>Parent\<close> names: no level is made
  with its parent missing.
\<close>

theorem missing_parent_is_fatal:
  assumes gl: "cf_geolevels config = before @ g # after"
    and lb: "lbody \<in> set (gc_lbodies g)"
    and p: "lbr_parent lbody = pref # prefs"
    and t: "lbr_targets lbody \<noteq> []"
    and pc: "GeoLevel_by_id config pref = pconfig # others"
    and later: "\<forall>y \<in> set (before @ [g]). gc_name y \<noteq> gc_name pconfig"
    and fresh: "\<forall>x \<in> set (geolevels s). gl_name x \<noteq> gc_name pconfig"
  shows "(\<exists>e s'. import_prereq config s = (Inl e, s')) \<and>
         (\<forall>glvl b targ st r st'.
            import_legislative_target config glvl lbody b targ st = (r, st') \<longrightarrow>
            (case r of
               Inl e \<Rightarrow> legislative_levels st' = legislative_levels st
             | Inr u \<Rightarrow>
                 (\<exists>p t pconfig others. p < length (legislative_levels st) \<and>
                    ll_legislative_body (legislative_levels st ! p) = b \<and>
                    ll_target (legislative_levels st ! p) = t \<and>
                    GeoLevel_by_id config pref = pconfig # others \<and>
                    ll_geolevel (legislative_levels st ! p) < length (geolevels st) \<and>
                    gl_name (geolevels st ! ll_geolevel (legislative_levels st ! p))
                      = gc_name pconfig \<and>
                    \<lparr>ll_legislative_body = b, ll_geolevel = glvl, ll_target = t,
                     ll_parent = Some p\<rparr> \<in> set (legislative_levels st'))))"
proof (intro conjI allI impI)
  from import_prereq_fails [OF assms]
  show "\<exists>e s'. import_prereq config s = (Inl e, s')"
    by (rule isl_fstE) blast
next
  fix glvl b targ st r st'
  assume "import_legislative_target config glvl lbody b targ st = (r, st')"
  with p show "case r of
               Inl e \<Rightarrow> legislative_levels st' = legislative_levels st
             | Inr u \<Rightarrow>
                 (\<exists>p t pconfig others. p < length (legislative_levels st) \<and>
                    ll_legislative_body (legislative_levels st ! p) = b \<and>
                    ll_target (legislative_levels st ! p) = t \<and>
                    GeoLevel_by_id config pref = pconfig # others \<and>
                    ll_geolevel (legislative_levels st ! p) < length (geolevels st) \<and>
                    gl_name (geolevels st ! ll_geolevel (legislative_levels st ! p))
                      = gc_name pconfig \<and>
                    \<lparr>ll_legislative_body = b, ll_geolevel = glvl, ll_target = t,
                     ll_parent = Some p\<rparr> \<in> set (legislative_levels st'))"
    by (rule target_step_level)
qed

theorem missing_parent_is_fatal_witness:
  "cf_geolevels misordered_config = [] @ hd (cf_geolevels misordered_config)
       # tl (cf_geolevels misordered_config)
   \<and> hd (gc_lbodies (hd (cf_geolevels misordered_config)))
       \<in> set (gc_lbodies (hd (cf_geolevels misordered_config)))
   \<and> lbr_parent (hd (gc_lbodies (hd (cf_geolevels misordered_config)))) = ''county'' # []
   \<and> lbr_targets (hd (gc_lbodies (hd (cf_geolevels misordered_config)))) \<noteq> []
   \<and> GeoLevel_by_id misordered_config ''county''
       = hd (tl (cf_geolevels misordered_config)) # []
   \<and> (\<forall>y \<in> set ([] @ [hd (cf_geolevels misordered_config)]).
         gc_name y \<noteq> gc_name (hd (tl (cf_geolevels misordered_config))))
   \<and> (\<forall>x \<in> set (geolevels (initial_state :: unit state)).
         gl_name x \<noteq> gc_name (hd (tl (cf_geolevels misordered_config))))
   \<and> (\<exists>e s'. import_prereq misordered_config (initial_state :: unit state) = (Inl e, s'))"
proof -
  have h: "cf_geolevels misordered_config = [] @ hd (cf_geolevels misordered_config)
       # tl (cf_geolevels misordered_config)"
    "hd (gc_lbodies (hd (cf_geolevels misordered_config)))
       \<in> set (gc_lbodies (hd (cf_geolevels misordered_config)))"
    "lbr_parent (hd (gc_lbodies (hd (cf_geolevels misordered_config)))) = ''county'' # []"
    "lbr_targets (hd (gc_lbodies (hd (cf_geolevels misordered_config)))) \<noteq> []"
    "GeoLevel_by_id misordered_config ''county''
       = hd (tl (cf_geolevels misordered_config)) # []"
    "\<forall>y \<in> set ([] @ [hd (cf_geolevels misordered_config)]).
         gc_name y \<noteq> gc_name (hd (tl (cf_geolevels misordered_config)))"
    "\<forall>x \<in> set (geolevels (initial_state :: unit state)).
         gl_name x \<noteq> gc_name (hd (tl (cf_geolevels misordered_config)))"
    by (simp_all add: misordered_config_def example_config_def initial_state_def
        GeoLevel_by_id_def)
  from missing_parent_is_fatal [OF h] h show ?thesis by blast
qed

end
